theory Spec2Isabelle
  imports Complex_Main "HOL-Library.Log_Nat"
begin

section \<open>The booking wizard of nas-detail: data model, validation, pricing, state machine\<close>

text \<open>
  The development embeds three TypeScript sources:
  \<^item> \<^verbatim>\<open>app/models/booking.models.ts\<close>: the interfaces and the constant tables;
  \<^item> \<^verbatim>\<open>BookingValidationService\<close> (the rule schema and its evaluation);
  \<^item> \<^verbatim>\<open>BookingService\<close> (the state held in a BehaviorSubject, navigation, step
    updates, pricing and submission).

  Conventions of the embedding.
  \<^item> A JavaScript \<^verbatim>\<open>number\<close> is an IEEE 754 double: a finite value, an infinity or
    \<^verbatim>\<open>NaN\<close>, and every \<^verbatim>\<open>*\<close> and \<^verbatim>\<open>+\<close> rounds its result to the nearest double.
  \<^item> A JavaScript string is a \<^typ>\<open>string\<close>; a \<^verbatim>\<open>Date\<close> is its time value in
    milliseconds.
  \<^item> An interface is a record, a union of string literals a datatype, \<^verbatim>\<open>T | null\<close> and an
    optional member an \<^typ>\<open>'a option\<close>.
  \<^item> The value held by the BehaviorSubject is passed in and returned; emitted events and HTTP
    requests are returned as a trace; a thrown \<^verbatim>\<open>Error\<close> is the left summand of the result.
  \<^item> \<^verbatim>\<open>new Date()\<close> is read from an explicit environment; event timestamps are dropped.
  \<^item> A step number is an integer, as every caller passes one.
\<close>

subsection \<open>Strings\<close>

text \<open>The white space and line terminators of ECMAScript that fit in one \<^typ>\<open>char\<close>:
  TAB, LF, VT, FF, CR, SPACE and NBSP. Both \<^verbatim>\<open>String.prototype.trim\<close> and the class
  \<^verbatim>\<open>\s\<close> use this set.\<close>

definition is_space :: "char \<Rightarrow> bool" where
  "is_space c = ((of_char c :: nat) \<in> {9, 10, 11, 12, 13, 32, 160})"

definition is_digit :: "char \<Rightarrow> bool" where
  "is_digit c = (48 \<le> (of_char c :: nat) \<and> (of_char c :: nat) \<le> 57)"

definition is_upper :: "char \<Rightarrow> bool" where
  "is_upper c = (65 \<le> (of_char c :: nat) \<and> (of_char c :: nat) \<le> 90)"

definition is_lower :: "char \<Rightarrow> bool" where
  "is_lower c = (97 \<le> (of_char c :: nat) \<and> (of_char c :: nat) \<le> 122)"

text \<open>\<^verbatim>\<open>toUpperCase\<close> and \<^verbatim>\<open>toLowerCase\<close>, on the ASCII letters (the field names they are
  applied to are ASCII constants of the schema).\<close>

definition toUpperChar :: "char \<Rightarrow> char" where
  "toUpperChar c = (if is_lower c then char_of ((of_char c :: nat) - 32) else c)"

definition toLowerChar :: "char \<Rightarrow> char" where
  "toLowerChar c = (if is_upper c then char_of ((of_char c :: nat) + 32) else c)"

definition toLowerCase :: "string \<Rightarrow> string" where
  "toLowerCase s = map toLowerChar s"

definition trim :: "string \<Rightarrow> string" where
  "trim s = rev (dropWhile is_space (rev (dropWhile is_space s)))"

fun startsWith :: "string \<Rightarrow> string \<Rightarrow> bool" where
  "startsWith s [] = True"
| "startsWith [] (p # ps) = False"
| "startsWith (c # cs) (p # ps) = (c = p \<and> startsWith cs ps)"

text \<open>\<^verbatim>\<open>s.includes(sub)\<close>.\<close>

fun includes_str :: "string \<Rightarrow> string \<Rightarrow> bool" where
  "includes_str [] sub = (sub = [])"
| "includes_str (c # cs) sub = (startsWith (c # cs) sub \<or> includes_str cs sub)"

text \<open>\<^verbatim>\<open>s.split('.')\<close>: the segments between the dots, at least one.\<close>

fun split_dot :: "string \<Rightarrow> string list" where
  "split_dot [] = [[]]"
| "split_dot (c # cs) =
     (if c = CHR ''.'' then [] # split_dot cs
      else (case split_dot cs of
              [] \<Rightarrow> [[c]]
            | seg # segs \<Rightarrow> (c # seg) # segs))"

text \<open>Decimal rendering of a number in a template literal.\<close>

definition digit_char :: "nat \<Rightarrow> char" where
  "digit_char d = char_of (48 + d)"

function show_nat :: "nat \<Rightarrow> string" where
  "show_nat n = (if n < 10 then [digit_char n] else show_nat (n div 10) @ [digit_char (n mod 10)])"
  by pat_completeness auto
termination
  by (relation "measure (\<lambda>n. n)") auto

declare show_nat.simps [simp del]

definition show_int :: "int \<Rightarrow> string" where
  "show_int i = (if i < 0 then CHR ''-'' # show_nat (nat (- i)) else show_nat (nat i))"

subsection \<open>Numbers\<close>

text \<open>A number is a double: a rational that is an integer multiple of a power of two with a
  53 bit significand, one of the two infinities, or \<^verbatim>\<open>NaN\<close>. The two zeros are one value
  here: the code modelled below never divides by a number, and \<^verbatim>\<open>String\<close>, \<^verbatim>\<open>===\<close> and the
  truth test do not tell them apart. The type does not force the rational of a finite value
  to be a double; every operation rounds its result, so the operations lead from doubles to
  doubles, and the literals of the code are rounded where they are written.\<close>

datatype number = Finite rat | PosInf | NegInf | NaN

definition pow2 :: "int \<Rightarrow> rat" where
  "pow2 e = (if 0 \<le> e then 2 ^ nat e else 1 / 2 ^ nat (- e))"

text \<open>The exponent of a positive rational: the \<open>e\<close> with \<open>2 ^ e \<le> a < 2 ^ (e + 1)\<close>.\<close>

definition ilog2 :: "rat \<Rightarrow> int" where
  "ilog2 a =
     (let (p, q) = quotient_of a;
          e = bitlen p - bitlen q
      in if pow2 e \<le> a then e else e - 1)"

text \<open>The nearest integer, a tie going to the even one.\<close>

definition round_half_even :: "rat \<Rightarrow> int" where
  "round_half_even x =
     (let f = \<lfloor>x\<rfloor>; d = x - of_int f
      in if d < 1 / 2 then f
         else if 1 / 2 < d then f + 1
         else if even f then f else f + 1)"

text \<open>Rounding of an exact result to a double (binary64, round to nearest, ties to even). The
  spacing of the doubles around \<open>x\<close> is \<open>2 ^ (e - 52)\<close> for the exponent \<open>e\<close> of \<open>x\<close>, and
  \<open>2 ^ (- 1074)\<close> below the smallest normal number; a result that rounds to \<open>2 ^ 1024\<close> or
  more is an infinity. It also gives the value of a decimal literal such as \<^verbatim>\<open>1.2\<close>.\<close>

definition round_double :: "rat \<Rightarrow> number" where
  "round_double x =
     (if x = 0 then Finite 0
      else
        (let a = \<bar>x\<bar>;
             e = max (ilog2 a) (- 1022);
             q = pow2 (e - 52);
             y = of_int (round_half_even (a / q)) * q
         in if pow2 1024 \<le> y then (if 0 < x then PosInf else NegInf)
            else Finite (if 0 < x then y else - y)))"

text \<open>\<^verbatim>\<open>x * y\<close>\<close>

fun js_mul :: "number \<Rightarrow> number \<Rightarrow> number" where
  "js_mul NaN y = NaN"
| "js_mul x NaN = NaN"
| "js_mul (Finite a) (Finite b) = round_double (a * b)"
| "js_mul (Finite a) PosInf = (if a = 0 then NaN else if 0 < a then PosInf else NegInf)"
| "js_mul (Finite a) NegInf = (if a = 0 then NaN else if 0 < a then NegInf else PosInf)"
| "js_mul PosInf (Finite b) = (if b = 0 then NaN else if 0 < b then PosInf else NegInf)"
| "js_mul NegInf (Finite b) = (if b = 0 then NaN else if 0 < b then NegInf else PosInf)"
| "js_mul PosInf PosInf = PosInf"
| "js_mul PosInf NegInf = NegInf"
| "js_mul NegInf PosInf = NegInf"
| "js_mul NegInf NegInf = PosInf"

text \<open>\<^verbatim>\<open>x + y\<close>\<close>

fun js_add :: "number \<Rightarrow> number \<Rightarrow> number" where
  "js_add NaN y = NaN"
| "js_add x NaN = NaN"
| "js_add (Finite a) (Finite b) = round_double (a + b)"
| "js_add (Finite a) PosInf = PosInf"
| "js_add (Finite a) NegInf = NegInf"
| "js_add PosInf (Finite b) = PosInf"
| "js_add NegInf (Finite b) = NegInf"
| "js_add PosInf PosInf = PosInf"
| "js_add PosInf NegInf = NaN"
| "js_add NegInf PosInf = NaN"
| "js_add NegInf NegInf = NegInf"

text \<open>\<^verbatim>\<open>x < y\<close>: false as soon as one side is \<^verbatim>\<open>NaN\<close>.\<close>

fun js_less :: "number \<Rightarrow> number \<Rightarrow> bool" where
  "js_less NaN y = False"
| "js_less x NaN = False"
| "js_less (Finite a) (Finite b) = (a < b)"
| "js_less (Finite a) PosInf = True"
| "js_less (Finite a) NegInf = False"
| "js_less PosInf y = False"
| "js_less NegInf (Finite b) = True"
| "js_less NegInf PosInf = True"
| "js_less NegInf NegInf = False"

subsection \<open>Regular expressions\<close>

text \<open>Every pattern of the validation service is anchored at both ends (\<^verbatim>\<open>/^...$/\<close>, without
  the multiline flag), so \<^verbatim>\<open>test\<close> succeeds exactly when the whole string matches. A
  pattern is kept as its syntax tree and matched by derivatives.\<close>

datatype rexp =
    Null
  | Eps
  | Cls "char \<Rightarrow> bool"
  | Seq rexp rexp
  | Alt rexp rexp
  | Star rexp

fun nullable :: "rexp \<Rightarrow> bool" where
  "nullable Null = False"
| "nullable Eps = True"
| "nullable (Cls p) = False"
| "nullable (Seq r s) = (nullable r \<and> nullable s)"
| "nullable (Alt r s) = (nullable r \<or> nullable s)"
| "nullable (Star r) = True"

fun deriv :: "char \<Rightarrow> rexp \<Rightarrow> rexp" where
  "deriv c Null = Null"
| "deriv c Eps = Null"
| "deriv c (Cls p) = (if p c then Eps else Null)"
| "deriv c (Seq r s) =
     (if nullable r then Alt (Seq (deriv c r) s) (deriv c s) else Seq (deriv c r) s)"
| "deriv c (Alt r s) = Alt (deriv c r) (deriv c s)"
| "deriv c (Star r) = Seq (deriv c r) (Star r)"

text \<open>\<^verbatim>\<open>pattern.test(s)\<close> for an anchored pattern.\<close>

fun test :: "rexp \<Rightarrow> string \<Rightarrow> bool" where
  "test r [] = nullable r"
| "test r (c # cs) = test (deriv c r) cs"

definition Opt :: "rexp \<Rightarrow> rexp" where
  "Opt r = Alt r Eps"

definition Plus :: "rexp \<Rightarrow> rexp" where
  "Plus r = Seq r (Star r)"

fun Rep :: "nat \<Rightarrow> rexp \<Rightarrow> rexp" where
  "Rep 0 r = Eps"
| "Rep (Suc n) r = Seq r (Rep n r)"

definition Chr :: "char \<Rightarrow> rexp" where
  "Chr a = Cls (\<lambda>c. c = a)"

text \<open>\<^verbatim>\<open>/^[A-Z0-9\-\s]+$/i\<close>: with the flag \<^verbatim>\<open>i\<close> the range A-Z also takes a-z.\<close>

definition licensePlate_pattern :: rexp where
  "licensePlate_pattern =
     Plus (Cls (\<lambda>c. is_upper c \<or> is_lower c \<or> is_digit c \<or> c = CHR ''-'' \<or> is_space c))"

text \<open>\<^verbatim>\<open>/^[a-zA-Z\s'-]+$/\<close>\<close>

definition name_pattern :: rexp where
  "name_pattern =
     Plus (Cls (\<lambda>c. is_lower c \<or> is_upper c \<or> is_space c \<or> c = CHR 0x27 \<or> c = CHR ''-''))"

text \<open>\<^verbatim>\<open>/^[^\s@]+@[^\s@]+\.[^\s@]+$/\<close>\<close>

definition email_pattern :: rexp where
  "email_pattern =
     (let word = Plus (Cls (\<lambda>c. \<not> is_space c \<and> c \<noteq> CHR ''@''))
      in Seq word (Seq (Chr CHR ''@'') (Seq word (Seq (Chr CHR ''.'') word))))"

text \<open>\<^verbatim>\<open>/^[\+]?[(]?[\+]?\d{3}[)]?[-\s\.]?\d{3}[-\s\.]?\d{4}$/\<close>\<close>

definition phone_pattern :: rexp where
  "phone_pattern =
     (let sep = Opt (Cls (\<lambda>c. c = CHR ''-'' \<or> is_space c \<or> c = CHR ''.''))
      in Seq (Opt (Chr CHR ''+''))
        (Seq (Opt (Chr CHR ''(''))
        (Seq (Opt (Chr CHR ''+''))
        (Seq (Rep 3 (Cls is_digit))
        (Seq (Opt (Chr CHR '')''))
        (Seq sep
        (Seq (Rep 3 (Cls is_digit))
        (Seq sep
             (Rep 4 (Cls is_digit))))))))))"

text \<open>\<^verbatim>\<open>/^\d{5}(-\d{4})?$/\<close>\<close>

definition zip_pattern :: rexp where
  "zip_pattern =
     Seq (Rep 5 (Cls is_digit)) (Opt (Seq (Chr CHR ''-'') (Rep 4 (Cls is_digit))))"

subsection \<open>The interfaces of booking.models.ts\<close>

type_synonym date = int

datatype ServiceCategory = Exterior | Interior | Full | Specialty

record ServiceType =
  st_id :: string
  st_name :: string
  st_description :: string
  basePrice :: number
  duration :: number
  category :: ServiceCategory
  st_available :: bool

record ServiceLevel =
  sl_id :: string
  sl_name :: string
  sl_description :: string
  priceMultiplier :: number
  features :: "string list"

datatype VehicleType = Sedan | Suv | Truck | Coupe | Convertible | Van | Motorcycle | Other

datatype SizeCategory = Small | Medium | Large | XLarge

datatype Condition = Excellent | Good | Fair | Poor

record Vehicle =
  v_id :: "string option"
  v_make :: string
  v_model :: string
  year :: number
  color :: string
  licensePlate :: string
  vehicleType :: VehicleType
  sizeCategory :: SizeCategory
  condition :: "Condition option"
  v_notes :: "string option"

record TimeSlot =
  ts_id :: string
  startTime :: date
  endTime :: date
  ts_available :: bool
  price :: "number option"

record AvailableDay =
  ad_date :: date
  slots :: "TimeSlot list"
  fullyBooked :: bool

datatype LocationType = Mobile | Shop

record Coordinates =
  latitude :: number
  longitude :: number

record Address =
  street :: string
  city :: string
  state :: string
  zipCode :: string
  country :: string
  coordinates :: "Coordinates option"

record ShopLocation =
  shop_id :: string
  shop_name :: string
  shop_address :: string
  shop_phone :: string
  shop_hours :: string

record Location =
  loc_type :: LocationType
  address :: "Address option"
  shopLocation :: "ShopLocation option"

datatype ContactMethod = ByEmail | ByPhone | ByText

record ContactInfo =
  firstName :: string
  lastName :: string
  email :: string
  phone :: string
  preferredContact :: ContactMethod
  specialInstructions :: "string option"

record BookingStep1Data =
  selectedService :: "ServiceType option"
  selectedLevel :: "ServiceLevel option"
  preSelectedService :: "string option"

record BookingStep2Data =
  selectedVehicle :: "Vehicle option"
  isNewVehicle :: bool
  vehicles :: "Vehicle list"

record BookingStep3Data =
  selectedDate :: "date option"
  selectedTimeSlot :: "TimeSlot option"
  availableDays :: "AvailableDay list"

record BookingStep4Data =
  location :: Location
  contactInfo :: ContactInfo

record BookingStep5Data =
  termsAccepted :: bool
  marketingOptIn :: bool
  specialRequests :: "string option"

record BookingFormData =
  step1 :: BookingStep1Data
  step2 :: BookingStep2Data
  step3 :: BookingStep3Data
  step4 :: BookingStep4Data
  step5 :: BookingStep5Data

record PricingBreakdown =
  servicePrice :: number
  levelMultiplier :: number
  vehicleSizeMultiplier :: number
  timeSlotSurcharge :: number
  locationSurcharge :: number
  taxes :: number
  discounts :: number
  total :: number

record BookingValidationError =
  err_step :: int
  err_field :: string
  err_message :: string
  err_code :: string

record BookingState =
  currentStep :: int
  isLoading :: bool
  formData :: BookingFormData
  validationErrors :: "BookingValidationError list"
  pricing :: "PricingBreakdown option"
  availableServices :: "ServiceType list"
  availableLevels :: "ServiceLevel list"
  savedVehicles :: "Vehicle list"
  isSubmitting :: bool
  submissionError :: "string option"

text \<open>\<^verbatim>\<open>MAX_BOOKING_STEPS = Object.keys(BOOKING_STEPS).length\<close>, and \<^verbatim>\<open>BOOKING_STEPS\<close> has the five
  keys SERVICE_SELECTION = 1, VEHICLE_INFO = 2, DATE_TIME = 3, LOCATION_CONTACT = 4 and
  CONFIRMATION = 5.\<close>

definition MAX_BOOKING_STEPS :: int where
  "MAX_BOOKING_STEPS = 5"

text \<open>The two tables. A literal with a fraction denotes the double nearest to it; the
  literals \<^verbatim>\<open>1.0\<close>, \<^verbatim>\<open>2.0\<close>, \<^verbatim>\<open>25\<close> and \<^verbatim>\<open>0\<close> are doubles themselves.\<close>

fun VEHICLE_SIZE_MULTIPLIERS :: "SizeCategory \<Rightarrow> number" where
  "VEHICLE_SIZE_MULTIPLIERS Small = Finite 1"
| "VEHICLE_SIZE_MULTIPLIERS Medium = round_double (12 / 10)"
| "VEHICLE_SIZE_MULTIPLIERS Large = round_double (15 / 10)"
| "VEHICLE_SIZE_MULTIPLIERS XLarge = Finite 2"

fun LOCATION_SURCHARGES :: "LocationType \<Rightarrow> number" where
  "LOCATION_SURCHARGES Mobile = Finite 25"
| "LOCATION_SURCHARGES Shop = Finite 0"

subsection \<open>Run-time values seen by the validation service\<close>

text \<open>The validation service receives its values as \<^verbatim>\<open>any\<close> and inspects them with
  \<^verbatim>\<open>typeof\<close>, \<^verbatim>\<open>Array.isArray\<close> and \<^verbatim>\<open>Object.keys\<close>. The form data are therefore also given
  as run-time values: a plain object is the list of its own enumerable members in insertion
  order, and a Date is an object without any such member.\<close>

datatype jsval =
    JUndefined
  | JNull
  | JBool bool
  | JNum number
  | JStr string
  | JDate date
  | JArr "jsval list"
  | JObj "(string \<times> jsval) list"

text \<open>\<^verbatim>\<open>current?.[key]\<close>. On \<^verbatim>\<open>null\<close> and \<^verbatim>\<open>undefined\<close> the optional chain gives
  \<^verbatim>\<open>undefined\<close>; so does a read of a member that an object does not have, and a read of any
  key of the schema on a string, number, boolean, Date or array.\<close>

fun js_get :: "jsval \<Rightarrow> string \<Rightarrow> jsval" where
  "js_get (JObj kvs) key = (case map_of kvs key of Some v \<Rightarrow> v | None \<Rightarrow> JUndefined)"
| "js_get _ key = JUndefined"

text \<open>Truthiness, as tested by \<^verbatim>\<open>!v\<close>, \<^verbatim>\<open>&&\<close> and \<^verbatim>\<open>||\<close>.\<close>

fun js_truthy :: "jsval \<Rightarrow> bool" where
  "js_truthy JUndefined = False"
| "js_truthy JNull = False"
| "js_truthy (JBool b) = b"
| "js_truthy (JNum n) = (n \<noteq> Finite 0 \<and> n \<noteq> NaN)"
| "js_truthy (JStr s) = (s \<noteq> [])"
| "js_truthy (JDate d) = True"
| "js_truthy (JArr xs) = True"
| "js_truthy (JObj kvs) = True"

fun join_comma :: "string list \<Rightarrow> string" where
  "join_comma [] = []"
| "join_comma [s] = s"
| "join_comma (s # t # ts) = s @ '','' @ join_comma (t # ts)"

text \<open>\<^verbatim>\<open>String(v)\<close>. Every field that carries a pattern has a string type, on which
  \<^verbatim>\<open>String\<close> is the identity. The other cases follow ECMAScript where the model can say
  what it prints; the digits of a number that is not an integer below \<open>10 ^ 21\<close> and the text
  of a Date are left empty.\<close>

fun js_String :: "jsval \<Rightarrow> string" where
  "js_String JUndefined = ''undefined''"
| "js_String JNull = ''null''"
| "js_String (JBool b) = (if b then ''true'' else ''false'')"
| "js_String (JNum n) =
     (case n of
        Finite r \<Rightarrow> if r = of_int \<lfloor>r\<rfloor> \<and> \<bar>r\<bar> < 10 ^ 21 then show_int \<lfloor>r\<rfloor> else []
      | PosInf \<Rightarrow> ''Infinity''
      | NegInf \<Rightarrow> ''-Infinity''
      | NaN \<Rightarrow> ''NaN'')"
| "js_String (JStr s) = s"
| "js_String (JDate d) = []"
| "js_String (JArr xs) =
     join_comma (map (\<lambda>x. if x = JNull \<or> x = JUndefined then [] else js_String x) xs)"
| "js_String (JObj kvs) = ''[object Object]''"

subsubsection \<open>The form data as run-time values\<close>

text \<open>\<^verbatim>\<open>T | null\<close> is \<^verbatim>\<open>null\<close> when unset; an optional member is absent when unset.\<close>

definition js_nullable :: "('a \<Rightarrow> jsval) \<Rightarrow> 'a option \<Rightarrow> jsval" where
  "js_nullable f x = (case x of None \<Rightarrow> JNull | Some a \<Rightarrow> f a)"

definition js_optional :: "string \<Rightarrow> ('a \<Rightarrow> jsval) \<Rightarrow> 'a option \<Rightarrow> (string \<times> jsval) list" where
  "js_optional key f x = (case x of None \<Rightarrow> [] | Some a \<Rightarrow> [(key, f a)])"

fun str_ServiceCategory :: "ServiceCategory \<Rightarrow> string" where
  "str_ServiceCategory Exterior = ''exterior''"
| "str_ServiceCategory Interior = ''interior''"
| "str_ServiceCategory Full = ''full''"
| "str_ServiceCategory Specialty = ''specialty''"

fun str_VehicleType :: "VehicleType \<Rightarrow> string" where
  "str_VehicleType Sedan = ''sedan''"
| "str_VehicleType Suv = ''suv''"
| "str_VehicleType Truck = ''truck''"
| "str_VehicleType Coupe = ''coupe''"
| "str_VehicleType Convertible = ''convertible''"
| "str_VehicleType Van = ''van''"
| "str_VehicleType Motorcycle = ''motorcycle''"
| "str_VehicleType Other = ''other''"

fun str_SizeCategory :: "SizeCategory \<Rightarrow> string" where
  "str_SizeCategory Small = ''small''"
| "str_SizeCategory Medium = ''medium''"
| "str_SizeCategory Large = ''large''"
| "str_SizeCategory XLarge = ''xlarge''"

fun str_Condition :: "Condition \<Rightarrow> string" where
  "str_Condition Excellent = ''excellent''"
| "str_Condition Good = ''good''"
| "str_Condition Fair = ''fair''"
| "str_Condition Poor = ''poor''"

fun str_LocationType :: "LocationType \<Rightarrow> string" where
  "str_LocationType Mobile = ''mobile''"
| "str_LocationType Shop = ''shop''"

fun str_ContactMethod :: "ContactMethod \<Rightarrow> string" where
  "str_ContactMethod ByEmail = ''email''"
| "str_ContactMethod ByPhone = ''phone''"
| "str_ContactMethod ByText = ''text''"

definition js_ServiceType :: "ServiceType \<Rightarrow> jsval" where
  "js_ServiceType x = JObj
     [(''id'', JStr (st_id x)),
      (''name'', JStr (st_name x)),
      (''description'', JStr (st_description x)),
      (''basePrice'', JNum (basePrice x)),
      (''duration'', JNum (duration x)),
      (''category'', JStr (str_ServiceCategory (category x))),
      (''available'', JBool (st_available x))]"

definition js_ServiceLevel :: "ServiceLevel \<Rightarrow> jsval" where
  "js_ServiceLevel x = JObj
     [(''id'', JStr (sl_id x)),
      (''name'', JStr (sl_name x)),
      (''description'', JStr (sl_description x)),
      (''priceMultiplier'', JNum (priceMultiplier x)),
      (''features'', JArr (map JStr (features x)))]"

definition js_Vehicle :: "Vehicle \<Rightarrow> jsval" where
  "js_Vehicle x = JObj
     (js_optional ''id'' JStr (v_id x) @
      [(''make'', JStr (v_make x)),
       (''model'', JStr (v_model x)),
       (''year'', JNum (year x)),
       (''color'', JStr (color x)),
       (''licensePlate'', JStr (licensePlate x)),
       (''vehicleType'', JStr (str_VehicleType (vehicleType x))),
       (''sizeCategory'', JStr (str_SizeCategory (sizeCategory x)))] @
      js_optional ''condition'' (\<lambda>c. JStr (str_Condition c)) (condition x) @
      js_optional ''notes'' JStr (v_notes x))"

definition js_TimeSlot :: "TimeSlot \<Rightarrow> jsval" where
  "js_TimeSlot x = JObj
     ([(''id'', JStr (ts_id x)),
       (''startTime'', JDate (startTime x)),
       (''endTime'', JDate (endTime x)),
       (''available'', JBool (ts_available x))] @
      js_optional ''price'' JNum (price x))"

definition js_AvailableDay :: "AvailableDay \<Rightarrow> jsval" where
  "js_AvailableDay x = JObj
     [(''date'', JDate (ad_date x)),
      (''slots'', JArr (map js_TimeSlot (slots x))),
      (''fullyBooked'', JBool (fullyBooked x))]"

definition js_Coordinates :: "Coordinates \<Rightarrow> jsval" where
  "js_Coordinates x = JObj
     [(''latitude'', JNum (latitude x)), (''longitude'', JNum (longitude x))]"

definition js_Address :: "Address \<Rightarrow> jsval" where
  "js_Address x = JObj
     ([(''street'', JStr (street x)),
       (''city'', JStr (city x)),
       (''state'', JStr (state x)),
       (''zipCode'', JStr (zipCode x)),
       (''country'', JStr (country x))] @
      js_optional ''coordinates'' js_Coordinates (coordinates x))"

definition js_ShopLocation :: "ShopLocation \<Rightarrow> jsval" where
  "js_ShopLocation x = JObj
     [(''id'', JStr (shop_id x)),
      (''name'', JStr (shop_name x)),
      (''address'', JStr (shop_address x)),
      (''phone'', JStr (shop_phone x)),
      (''hours'', JStr (shop_hours x))]"

definition js_Location :: "Location \<Rightarrow> jsval" where
  "js_Location x = JObj
     ([(''type'', JStr (str_LocationType (loc_type x)))] @
      js_optional ''address'' js_Address (address x) @
      js_optional ''shopLocation'' js_ShopLocation (shopLocation x))"

definition js_ContactInfo :: "ContactInfo \<Rightarrow> jsval" where
  "js_ContactInfo x = JObj
     ([(''firstName'', JStr (firstName x)),
       (''lastName'', JStr (lastName x)),
       (''email'', JStr (email x)),
       (''phone'', JStr (phone x)),
       (''preferredContact'', JStr (str_ContactMethod (preferredContact x)))] @
      js_optional ''specialInstructions'' JStr (specialInstructions x))"

definition js_Step1 :: "BookingStep1Data \<Rightarrow> jsval" where
  "js_Step1 d = JObj
     ([(''selectedService'', js_nullable js_ServiceType (selectedService d)),
       (''selectedLevel'', js_nullable js_ServiceLevel (selectedLevel d))] @
      js_optional ''preSelectedService'' JStr (preSelectedService d))"

definition js_Step2 :: "BookingStep2Data \<Rightarrow> jsval" where
  "js_Step2 d = JObj
     [(''selectedVehicle'', js_nullable js_Vehicle (selectedVehicle d)),
      (''isNewVehicle'', JBool (isNewVehicle d)),
      (''vehicles'', JArr (map js_Vehicle (vehicles d)))]"

definition js_Step3 :: "BookingStep3Data \<Rightarrow> jsval" where
  "js_Step3 d = JObj
     [(''selectedDate'', js_nullable JDate (selectedDate d)),
      (''selectedTimeSlot'', js_nullable js_TimeSlot (selectedTimeSlot d)),
      (''availableDays'', JArr (map js_AvailableDay (availableDays d)))]"

definition js_Step4 :: "BookingStep4Data \<Rightarrow> jsval" where
  "js_Step4 d = JObj
     [(''location'', js_Location (location d)),
      (''contactInfo'', js_ContactInfo (contactInfo d))]"

definition js_Step5 :: "BookingStep5Data \<Rightarrow> jsval" where
  "js_Step5 d = JObj
     ([(''termsAccepted'', JBool (termsAccepted d)),
       (''marketingOptIn'', JBool (marketingOptIn d))] @
      js_optional ''specialRequests'' JStr (specialRequests d))"

subsection \<open>BookingValidationService\<close>

text \<open>What \<^verbatim>\<open>new Date()\<close> gives to the two validators that read the clock: the calendar year
  (\<^verbatim>\<open>getFullYear()\<close>) and the time value of today's local midnight
  (after \<^verbatim>\<open>setHours(0, 0, 0, 0)\<close>).\<close>

record Clock =
  currentYear :: int
  today :: date

text \<open>\<^verbatim>\<open>ValidationRule\<close>: every member is optional.\<close>

record ValidationRule =
  required :: "bool option"
  minLength :: "nat option"
  maxLength :: "nat option"
  pattern :: "rexp option"
  custom :: "(jsval \<Rightarrow> BookingFormData \<Rightarrow> string option) option"

type_synonym StepValidation = "(string \<times> ValidationRule list) list"

definition no_rule :: ValidationRule where
  "no_rule = \<lparr>required = None, minLength = None, maxLength = None, pattern = None, custom = None\<rparr>"

definition rule_required :: ValidationRule where
  "rule_required = no_rule\<lparr>required := Some True\<rparr>"

definition rule_minLength :: "nat \<Rightarrow> ValidationRule" where
  "rule_minLength n = no_rule\<lparr>minLength := Some n\<rparr>"

definition rule_maxLength :: "nat \<Rightarrow> ValidationRule" where
  "rule_maxLength n = no_rule\<lparr>maxLength := Some n\<rparr>"

definition rule_pattern :: "rexp \<Rightarrow> ValidationRule" where
  "rule_pattern rx = no_rule\<lparr>pattern := Some rx\<rparr>"

definition rule_custom :: "(jsval \<Rightarrow> BookingFormData \<Rightarrow> string option) \<Rightarrow> ValidationRule" where
  "rule_custom f = no_rule\<lparr>custom := Some f\<rparr>"

datatype StepKey = Step1 | Step2 | Step3 | Step4 | Step5

definition getStepKey :: "int \<Rightarrow> StepKey option" where
  "getStepKey step =
     (if step = 1 then Some Step1
      else if step = 2 then Some Step2
      else if step = 3 then Some Step3
      else if step = 4 then Some Step4
      else if step = 5 then Some Step5
      else None)"

text \<open>\<^verbatim>\<open>formData[stepKey]\<close>, as the validation service sees it.\<close>

fun stepData :: "BookingFormData \<Rightarrow> StepKey \<Rightarrow> jsval" where
  "stepData fd Step1 = js_Step1 (step1 fd)"
| "stepData fd Step2 = js_Step2 (step2 fd)"
| "stepData fd Step3 = js_Step3 (step3 fd)"
| "stepData fd Step4 = js_Step4 (step4 fd)"
| "stepData fd Step5 = js_Step5 (step5 fd)"

definition getNestedValue :: "jsval \<Rightarrow> string \<Rightarrow> jsval" where
  "getNestedValue obj path = foldl js_get obj (split_dot path)"

fun isEmpty :: "jsval \<Rightarrow> bool" where
  "isEmpty JNull = True"
| "isEmpty JUndefined = True"
| "isEmpty (JStr s) = (length (trim s) = 0)"
| "isEmpty (JArr xs) = (length xs = 0)"
| "isEmpty (JObj kvs) = (length kvs = 0)"
| "isEmpty (JDate d) = True"
| "isEmpty (JBool b) = False"
| "isEmpty (JNum n) = False"

fun getLength :: "jsval \<Rightarrow> nat" where
  "getLength (JStr s) = length s"
| "getLength (JArr xs) = length xs"
| "getLength _ = 0"

fun upper_first :: "string \<Rightarrow> string" where
  "upper_first [] = []"
| "upper_first (c # cs) = toUpperChar c # cs"

text \<open>\<^verbatim>\<open>fieldName.split('.').pop()\<close>, then a space before every capital, the first character in
  upper case, and \<^verbatim>\<open>trim\<close>.\<close>

definition humanizeFieldName :: "string \<Rightarrow> string" where
  "humanizeFieldName fieldName =
     (let seg = (case rev (split_dot fieldName) of [] \<Rightarrow> [] | x # _ \<Rightarrow> x);
          spaced = concat (map (\<lambda>c. if is_upper c then [CHR '' '', c] else [c]) seg)
      in trim (upper_first spaced))"

definition getPatternErrorMessage :: "string \<Rightarrow> string" where
  "getPatternErrorMessage fieldName =
     (let field = toLowerCase fieldName
      in if includes_str field ''email'' then ''Please enter a valid email address''
         else if includes_str field ''phone'' then ''Please enter a valid phone number''
         else if includes_str field ''licenseplate''
           then ''Please enter a valid license plate (letters and numbers only)''
         else if includes_str field ''firstname'' \<or> includes_str field ''lastname''
           then ''Name can only contain letters, spaces, hyphens, and apostrophes''
         else if includes_str field ''zipcode''
           then ''Please enter a valid ZIP code (12345 or 12345-6789)''
         else ''Please enter a valid '' @ toLowerCase (humanizeFieldName fieldName))"

definition applyValidationRule ::
  "string \<Rightarrow> jsval \<Rightarrow> ValidationRule \<Rightarrow> BookingFormData \<Rightarrow> int \<Rightarrow> BookingValidationError option" where
  "applyValidationRule fieldName val rule fd step =
     (if required rule = Some True \<and> isEmpty val then
        Some \<lparr>err_step = step, err_field = fieldName,
              err_message = humanizeFieldName fieldName @ '' is required'',
              err_code = ''REQUIRED''\<rparr>
      else if isEmpty val then None
      else if (case minLength rule of None \<Rightarrow> False | Some n \<Rightarrow> n \<noteq> 0 \<and> getLength val < n) then
        Some \<lparr>err_step = step, err_field = fieldName,
              err_message = humanizeFieldName fieldName @ '' must be at least '' @
                            show_nat (the (minLength rule)) @ '' characters'',
              err_code = ''MIN_LENGTH''\<rparr>
      else if (case maxLength rule of None \<Rightarrow> False | Some n \<Rightarrow> n \<noteq> 0 \<and> getLength val > n) then
        Some \<lparr>err_step = step, err_field = fieldName,
              err_message = humanizeFieldName fieldName @ '' must be no more than '' @
                            show_nat (the (maxLength rule)) @ '' characters'',
              err_code = ''MAX_LENGTH''\<rparr>
      else if (case pattern rule of None \<Rightarrow> False | Some rx \<Rightarrow> \<not> test rx (js_String val)) then
        Some \<lparr>err_step = step, err_field = fieldName,
              err_message = getPatternErrorMessage fieldName,
              err_code = ''INVALID_FORMAT''\<rparr>
      else
        (case custom rule of
           None \<Rightarrow> None
         | Some f \<Rightarrow>
             (case f val fd of
                None \<Rightarrow> None
              | Some customError \<Rightarrow>
                  if customError \<noteq> [] then
                    Some \<lparr>err_step = step, err_field = fieldName,
                          err_message = customError,
                          err_code = ''CUSTOM_VALIDATION''\<rparr>
                  else None)))"

text \<open>\<^verbatim>\<open>validateYear\<close>: the field has type \<^verbatim>\<open>number\<close>.\<close>

definition validateYear :: "Clock \<Rightarrow> jsval \<Rightarrow> BookingFormData \<Rightarrow> string option" where
  "validateYear clock val fd =
     (let minYear = 1900; maxYear = currentYear clock + 1
      in case val of
           JNum y \<Rightarrow>
             if js_less y (Finite (of_int minYear)) \<or> js_less (Finite (of_int maxYear)) y then
               Some (''Year must be between '' @ show_int minYear @ '' and '' @ show_int maxYear)
             else None
         | _ \<Rightarrow> None)"

text \<open>\<^verbatim>\<open>validateFutureDate\<close>: the field has type \<^verbatim>\<open>Date\<close>.\<close>

definition validateFutureDate :: "Clock \<Rightarrow> jsval \<Rightarrow> BookingFormData \<Rightarrow> string option" where
  "validateFutureDate clock val fd =
     (case val of
        JDate d \<Rightarrow> if d < today clock then Some ''Please select a future date'' else None
      | _ \<Rightarrow> None)"

definition validateStreet :: "jsval \<Rightarrow> BookingFormData \<Rightarrow> string option" where
  "validateStreet val fd =
     (if loc_type (location (step4 fd)) = Mobile \<and> \<not> js_truthy val then
        Some ''Street address is required for mobile service''
      else None)"

definition validateCity :: "jsval \<Rightarrow> BookingFormData \<Rightarrow> string option" where
  "validateCity val fd =
     (if loc_type (location (step4 fd)) = Mobile \<and> \<not> js_truthy val then
        Some ''City is required for mobile service''
      else None)"

definition validateZipCode :: "jsval \<Rightarrow> BookingFormData \<Rightarrow> string option" where
  "validateZipCode val fd =
     (if loc_type (location (step4 fd)) = Mobile then
        (if \<not> js_truthy val then Some ''ZIP code is required for mobile service''
         else if \<not> test zip_pattern (js_String val) then Some ''Invalid ZIP code format''
         else None)
      else None)"

definition validateTerms :: "jsval \<Rightarrow> BookingFormData \<Rightarrow> string option" where
  "validateTerms val fd =
     (if \<not> js_truthy val then Some ''You must accept the terms and conditions to proceed''
      else None)"

text \<open>\<^verbatim>\<open>createValidationSchema()\<close>, read at a step key; the fields in the order of the object
  literal, which is the order of \<^verbatim>\<open>Object.entries\<close>.\<close>

fun createValidationSchema :: "Clock \<Rightarrow> StepKey \<Rightarrow> StepValidation" where
  "createValidationSchema clock Step1 =
     [(''selectedService'', [rule_required]),
      (''selectedLevel'', [rule_required])]"
| "createValidationSchema clock Step2 =
     [(''selectedVehicle'', [rule_required]),
      (''selectedVehicle.make'', [rule_required, rule_minLength 2, rule_maxLength 50]),
      (''selectedVehicle.model'', [rule_required, rule_minLength 1, rule_maxLength 50]),
      (''selectedVehicle.year'', [rule_required, rule_custom (validateYear clock)]),
      (''selectedVehicle.color'', [rule_required, rule_minLength 3, rule_maxLength 30]),
      (''selectedVehicle.licensePlate'',
         [rule_required, rule_minLength 2, rule_maxLength 10, rule_pattern licensePlate_pattern]),
      (''selectedVehicle.vehicleType'', [rule_required]),
      (''selectedVehicle.sizeCategory'', [rule_required])]"
| "createValidationSchema clock Step3 =
     [(''selectedDate'', [rule_required, rule_custom (validateFutureDate clock)]),
      (''selectedTimeSlot'', [rule_required])]"
| "createValidationSchema clock Step4 =
     [(''contactInfo.firstName'',
         [rule_required, rule_minLength 2, rule_maxLength 50, rule_pattern name_pattern]),
      (''contactInfo.lastName'',
         [rule_required, rule_minLength 2, rule_maxLength 50, rule_pattern name_pattern]),
      (''contactInfo.email'', [rule_required, rule_pattern email_pattern]),
      (''contactInfo.phone'', [rule_required, rule_pattern phone_pattern]),
      (''contactInfo.preferredContact'', [rule_required]),
      (''location.type'', [rule_required]),
      (''location.address.street'', [rule_custom validateStreet]),
      (''location.address.city'', [rule_custom validateCity]),
      (''location.address.zipCode'', [rule_custom validateZipCode])]"
| "createValidationSchema clock Step5 =
     [(''termsAccepted'', [rule_custom validateTerms])]"

fun validateField ::
  "string \<Rightarrow> jsval \<Rightarrow> ValidationRule list \<Rightarrow> BookingFormData \<Rightarrow> int \<Rightarrow> BookingValidationError list" where
  "validateField fieldName val [] fd step = []"
| "validateField fieldName val (rule # rules) fd step =
     (case applyValidationRule fieldName val rule fd step of
        None \<Rightarrow> validateField fieldName val rules fd step
      | Some error \<Rightarrow> error # validateField fieldName val rules fd step)"

definition validateStep :: "Clock \<Rightarrow> int \<Rightarrow> BookingFormData \<Rightarrow> BookingValidationError list" where
  "validateStep clock step fd =
     (case getStepKey step of
        None \<Rightarrow> []
      | Some stepKey \<Rightarrow>
          concat (map (\<lambda>(fieldName, rules).
                    validateField fieldName (getNestedValue (stepData fd stepKey) fieldName)
                      rules fd step)
                  (createValidationSchema clock stepKey)))"

definition validateAllSteps :: "Clock \<Rightarrow> BookingFormData \<Rightarrow> BookingValidationError list" where
  "validateAllSteps clock fd =
     concat (map (\<lambda>step. validateStep clock step fd) [1, 2, 3, 4, 5])"

definition isStepValid :: "Clock \<Rightarrow> int \<Rightarrow> BookingFormData \<Rightarrow> bool" where
  "isStepValid clock step fd = (length (validateStep clock step fd) = 0)"

definition isContactInfoComplete :: "ContactInfo \<Rightarrow> bool" where
  "isContactInfoComplete c =
     (firstName c \<noteq> [] \<and> lastName c \<noteq> [] \<and> email c \<noteq> [] \<and> phone c \<noteq> [] \<and>
      str_ContactMethod (preferredContact c) \<noteq> [])"

definition isLocationComplete :: "Location \<Rightarrow> bool" where
  "isLocationComplete loc =
     (if loc_type loc = Shop then shopLocation loc \<noteq> None
      else if loc_type loc = Mobile then
        (case address loc of
           None \<Rightarrow> False
         | Some a \<Rightarrow> street a \<noteq> [] \<and> city a \<noteq> [] \<and> zipCode a \<noteq> [])
      else False)"

definition canProceedToNextStep :: "Clock \<Rightarrow> int \<Rightarrow> BookingFormData \<Rightarrow> bool" where
  "canProceedToNextStep clock step fd =
     (if \<not> isStepValid clock step fd then False
      else if step = 1 then
        selectedService (step1 fd) \<noteq> None \<and> selectedLevel (step1 fd) \<noteq> None
      else if step = 2 then selectedVehicle (step2 fd) \<noteq> None
      else if step = 3 then
        selectedDate (step3 fd) \<noteq> None \<and> selectedTimeSlot (step3 fd) \<noteq> None
      else if step = 4 then
        isContactInfoComplete (contactInfo (step4 fd)) \<and>
        isLocationComplete (location (step4 fd))
      else True)"

subsection \<open>BookingService\<close>

text \<open>The service is constructed from an \<^verbatim>\<open>HttpClient\<close> and a \<^verbatim>\<open>BookingValidationService\<close>.
  Both are parameters here: the validation service as the three methods that the booking
  service calls, the HTTP client as a function from the posted body to the outcome of the
  request.\<close>

record ValidationService =
  vs_validateStep :: "int \<Rightarrow> BookingFormData \<Rightarrow> BookingValidationError list"
  vs_validateAllSteps :: "BookingFormData \<Rightarrow> BookingValidationError list"
  vs_canProceedToNextStep :: "int \<Rightarrow> BookingFormData \<Rightarrow> bool"

text \<open>The validation service of the repository, as it is injected.\<close>

definition bookingValidationService :: "Clock \<Rightarrow> ValidationService" where
  "bookingValidationService clock =
     \<lparr>vs_validateStep = validateStep clock,
      vs_validateAllSteps = validateAllSteps clock,
      vs_canProceedToNextStep = canProceedToNextStep clock\<rparr>"

text \<open>A thrown \<^verbatim>\<open>new Error(message)\<close>.\<close>

datatype Error = Error string

text \<open>\<^verbatim>\<open>Partial<T>\<close> for the five step records: a member is either absent or given.\<close>

record Step1Patch =
  p_selectedService :: "ServiceType option option"
  p_selectedLevel :: "ServiceLevel option option"
  p_preSelectedService :: "string option option"

record Step2Patch =
  p_selectedVehicle :: "Vehicle option option"
  p_isNewVehicle :: "bool option"
  p_vehicles :: "Vehicle list option"

record Step3Patch =
  p_selectedDate :: "date option option"
  p_selectedTimeSlot :: "TimeSlot option option"
  p_availableDays :: "AvailableDay list option"

record Step4Patch =
  p_location :: "Location option"
  p_contactInfo :: "ContactInfo option"

record Step5Patch =
  p_termsAccepted :: "bool option"
  p_marketingOptIn :: "bool option"
  p_specialRequests :: "string option option"

datatype StepPatch =
    Patch1 Step1Patch
  | Patch2 Step2Patch
  | Patch3 Step3Patch
  | Patch4 Step4Patch
  | Patch5 Step5Patch

definition override :: "'a \<Rightarrow> 'a option \<Rightarrow> 'a" where
  "override old new = (case new of None \<Rightarrow> old | Some v \<Rightarrow> v)"

text \<open>The spread \<^verbatim>\<open>{ ...currentState.formData[stepKey], ...data }\<close>.\<close>

definition merge_Step1 :: "BookingStep1Data \<Rightarrow> Step1Patch \<Rightarrow> BookingStep1Data" where
  "merge_Step1 d p =
     \<lparr>selectedService = override (selectedService d) (p_selectedService p),
      selectedLevel = override (selectedLevel d) (p_selectedLevel p),
      preSelectedService = override (preSelectedService d) (p_preSelectedService p)\<rparr>"

definition merge_Step2 :: "BookingStep2Data \<Rightarrow> Step2Patch \<Rightarrow> BookingStep2Data" where
  "merge_Step2 d p =
     \<lparr>selectedVehicle = override (selectedVehicle d) (p_selectedVehicle p),
      isNewVehicle = override (isNewVehicle d) (p_isNewVehicle p),
      vehicles = override (vehicles d) (p_vehicles p)\<rparr>"

definition merge_Step3 :: "BookingStep3Data \<Rightarrow> Step3Patch \<Rightarrow> BookingStep3Data" where
  "merge_Step3 d p =
     \<lparr>selectedDate = override (selectedDate d) (p_selectedDate p),
      selectedTimeSlot = override (selectedTimeSlot d) (p_selectedTimeSlot p),
      availableDays = override (availableDays d) (p_availableDays p)\<rparr>"

definition merge_Step4 :: "BookingStep4Data \<Rightarrow> Step4Patch \<Rightarrow> BookingStep4Data" where
  "merge_Step4 d p =
     \<lparr>location = override (location d) (p_location p),
      contactInfo = override (contactInfo d) (p_contactInfo p)\<rparr>"

definition merge_Step5 :: "BookingStep5Data \<Rightarrow> Step5Patch \<Rightarrow> BookingStep5Data" where
  "merge_Step5 d p =
     \<lparr>termsAccepted = override (termsAccepted d) (p_termsAccepted p),
      marketingOptIn = override (marketingOptIn d) (p_marketingOptIn p),
      specialRequests = override (specialRequests d) (p_specialRequests p)\<rparr>"

text \<open>\<^verbatim>\<open>{ ...currentState.formData, [stepKey]: { ... } }\<close>. The parameter \<^verbatim>\<open>data\<close> has type
  \<^verbatim>\<open>Partial<any>\<close>; members that the interface of the step does not declare are not read by
  any other code and leave the record as it is.\<close>

fun mergeStep :: "BookingFormData \<Rightarrow> StepKey \<Rightarrow> StepPatch \<Rightarrow> BookingFormData" where
  "mergeStep fd Step1 (Patch1 p) = fd\<lparr>step1 := merge_Step1 (step1 fd) p\<rparr>"
| "mergeStep fd Step2 (Patch2 p) = fd\<lparr>step2 := merge_Step2 (step2 fd) p\<rparr>"
| "mergeStep fd Step3 (Patch3 p) = fd\<lparr>step3 := merge_Step3 (step3 fd) p\<rparr>"
| "mergeStep fd Step4 (Patch4 p) = fd\<lparr>step4 := merge_Step4 (step4 fd) p\<rparr>"
| "mergeStep fd Step5 (Patch5 p) = fd\<lparr>step5 := merge_Step5 (step5 fd) p\<rparr>"
| "mergeStep fd _ _ = fd"

datatype BookingStatus = Pending | Confirmed | InProgress | Completed | Cancelled | NoShow

datatype PaymentStatus = PaymentPending | Paid | Failed | Refunded

text \<open>The object built by \<^verbatim>\<open>createBookingFromFormData\<close>. The postfix \<^verbatim>\<open>!\<close> of TypeScript is
  erased by the compiler, so a member whose source is \<^verbatim>\<open>null\<close> is \<^verbatim>\<open>null\<close> in the
  object. \<^verbatim>\<open>createdAt\<close> and \<^verbatim>\<open>updatedAt\<close> are timestamps and are dropped.\<close>

record PartialBooking =
  b_service :: "ServiceType option"
  b_serviceLevel :: "ServiceLevel option"
  b_vehicle :: "Vehicle option"
  b_scheduledDate :: "date option"
  b_timeSlot :: "TimeSlot option"
  b_location :: Location
  b_contactInfo :: ContactInfo
  b_pricing :: "PricingBreakdown option"
  b_specialInstructions :: "string option"
  b_status :: BookingStatus
  b_paymentStatus :: PaymentStatus

text \<open>\<^verbatim>\<open>ApiResponse<T>\<close>, with the members that the service reads.\<close>

record ApiError =
  ae_message :: string
  ae_code :: string

record 'a ApiResponse =
  api_success :: bool
  api_data :: "'a option"
  api_error :: "ApiError option"

datatype BookingEvent =
    StepChanged int
  | DataUpdated int StepPatch
  | ValidationFailed string
  | SubmissionStarted
  | SubmissionCompleted
  | SubmissionFailed string

text \<open>What a call does besides changing the state, in order: \<^verbatim>\<open>emitEvent\<close> and
  \<^verbatim>\<open>http.post(url, body)\<close>.\<close>

datatype Effect = Emit BookingEvent | HttpPost string PartialBooking

definition apiBaseUrl :: string where
  "apiBaseUrl = ''/api/bookings''"

definition createInitialState :: BookingState where
  "createInitialState =
     \<lparr>currentStep = 1,
      isLoading = False,
      formData =
        \<lparr>step1 = \<lparr>selectedService = None, selectedLevel = None, preSelectedService = None\<rparr>,
         step2 = \<lparr>selectedVehicle = None, isNewVehicle = False, vehicles = []\<rparr>,
         step3 = \<lparr>selectedDate = None, selectedTimeSlot = None, availableDays = []\<rparr>,
         step4 =
           \<lparr>location =
              \<lparr>loc_type = Mobile,
               address = Some \<lparr>street = [], city = [], state = [], zipCode = [],
                               country = ''US'', coordinates = None\<rparr>,
               shopLocation = None\<rparr>,
            contactInfo =
              \<lparr>firstName = [], lastName = [], email = [], phone = [],
               preferredContact = ByEmail, specialInstructions = None\<rparr>\<rparr>,
         step5 = \<lparr>termsAccepted = False, marketingOptIn = False, specialRequests = Some []\<rparr>\<rparr>,
      validationErrors = [],
      pricing = None,
      availableServices = [],
      availableLevels = [],
      savedVehicles = [],
      isSubmitting = False,
      submissionError = None\<rparr>"

subsubsection \<open>Navigation\<close>

definition goToStep ::
  "ValidationService \<Rightarrow> BookingState \<Rightarrow> int \<Rightarrow> (Error + bool) \<times> BookingState \<times> Effect list" where
  "goToStep vs s step =
     (if step < 1 \<or> step > MAX_BOOKING_STEPS then
        (Inl (Error (''Invalid step: '' @ show_int step)), s, [])
      else if step > currentStep s \<and> \<not> vs_canProceedToNextStep vs (currentStep s) (formData s) then
        (let errors = vs_validateStep vs (currentStep s) (formData s)
         in (Inl (Error ''Please complete current step before proceeding''),
             s\<lparr>validationErrors := validationErrors s @ errors\<rparr>,
             []))
      else
        (Inr True, s\<lparr>currentStep := step\<rparr>, [Emit (StepChanged step)]))"

definition nextStep ::
  "ValidationService \<Rightarrow> BookingState \<Rightarrow> (Error + bool) \<times> BookingState \<times> Effect list" where
  "nextStep vs s = goToStep vs s (currentStep s + 1)"

definition previousStep ::
  "ValidationService \<Rightarrow> BookingState \<Rightarrow> (Error + bool) \<times> BookingState \<times> Effect list" where
  "previousStep vs s = goToStep vs s (currentStep s - 1)"

subsubsection \<open>Pricing\<close>

text \<open>\<^verbatim>\<open>step3.selectedTimeSlot?.price || 0\<close>: a missing slot, a missing price, a price of zero
  and a price that is \<^verbatim>\<open>NaN\<close> all give 0.\<close>

definition slotPrice :: "TimeSlot option \<Rightarrow> number" where
  "slotPrice slot =
     (case slot of
        None \<Rightarrow> Finite 0
      | Some t \<Rightarrow>
          (case price t of
             None \<Rightarrow> Finite 0
           | Some p \<Rightarrow> if p \<noteq> Finite 0 \<and> p \<noteq> NaN then p else Finite 0))"

definition calculatePricing :: "BookingState \<Rightarrow> (Error + PricingBreakdown) \<times> BookingState" where
  "calculatePricing s =
     (let fd = formData s
      in case (selectedService (step1 fd), selectedLevel (step1 fd), selectedVehicle (step2 fd)) of
           (Some service, Some level, Some vehicle) \<Rightarrow>
             (let servicePrice' = basePrice service;
                  levelMultiplier' = priceMultiplier level;
                  vehicleSizeMultiplier' = VEHICLE_SIZE_MULTIPLIERS (sizeCategory vehicle);
                  timeSlotSurcharge' = slotPrice (selectedTimeSlot (step3 fd));
                  locationSurcharge' = LOCATION_SURCHARGES (loc_type (location (step4 fd)));
                  subtotal = js_mul (js_mul servicePrice' levelMultiplier') vehicleSizeMultiplier';
                  totalSurcharges = js_add timeSlotSurcharge' locationSurcharge';
                  taxRate = round_double (8 / 100);
                  taxes' = js_mul (js_add subtotal totalSurcharges) taxRate;
                  total' = js_add (js_add subtotal totalSurcharges) taxes';
                  pricing' =
                    \<lparr>servicePrice = subtotal,
                     levelMultiplier = levelMultiplier',
                     vehicleSizeMultiplier = vehicleSizeMultiplier',
                     timeSlotSurcharge = timeSlotSurcharge',
                     locationSurcharge = locationSurcharge',
                     taxes = taxes',
                     discounts = Finite 0,
                     total = total'\<rparr>
              in (Inr pricing', s\<lparr>pricing := Some pricing'\<rparr>))
         | _ \<Rightarrow> (Inl (Error ''Required selections not complete''), s))"

subsubsection \<open>Form data\<close>

definition shouldRecalculatePricing :: "int \<Rightarrow> bool" where
  "shouldRecalculatePricing step = (step \<in> set [1, 2, 3, 4])"

text \<open>\<^verbatim>\<open>updateStepData\<close> drops the observable that \<^verbatim>\<open>calculatePricing\<close> returns, so a failed
  recomputation leaves no trace; only the state that it returns is kept. The private
  \<^verbatim>\<open>getStepKey\<close> of the booking service is the same switch as the one of the validation
  service.\<close>

definition updateStepData :: "BookingState \<Rightarrow> int \<Rightarrow> StepPatch \<Rightarrow> BookingState \<times> Effect list" where
  "updateStepData s step patch =
     (case getStepKey step of
        None \<Rightarrow> (s, [])
      | Some stepKey \<Rightarrow>
          (let updatedFormData = mergeStep (formData s) stepKey patch;
               updatedErrors = filter (\<lambda>error. err_step error \<noteq> step) (validationErrors s);
               s1 = s\<lparr>formData := updatedFormData, validationErrors := updatedErrors\<rparr>;
               s2 = (if shouldRecalculatePricing step then snd (calculatePricing s1) else s1)
           in (s2, [Emit (DataUpdated step patch)])))"

definition no_patch2 :: Step2Patch where
  "no_patch2 = \<lparr>p_selectedVehicle = None, p_isNewVehicle = None, p_vehicles = None\<rparr>"

definition selectVehicle :: "BookingState \<Rightarrow> Vehicle \<Rightarrow> BookingState \<times> Effect list" where
  "selectVehicle s vehicle =
     updateStepData s 2
       (Patch2 (no_patch2\<lparr>p_selectedVehicle := Some (Some vehicle), p_isNewVehicle := Some False\<rparr>))"

subsubsection \<open>Submission\<close>

definition createBookingFromFormData :: "BookingFormData \<Rightarrow> PricingBreakdown option \<Rightarrow> PartialBooking" where
  "createBookingFromFormData fd pricing' =
     \<lparr>b_service = selectedService (step1 fd),
      b_serviceLevel = selectedLevel (step1 fd),
      b_vehicle = selectedVehicle (step2 fd),
      b_scheduledDate = selectedDate (step3 fd),
      b_timeSlot = selectedTimeSlot (step3 fd),
      b_location = location (step4 fd),
      b_contactInfo = contactInfo (step4 fd),
      b_pricing = pricing',
      b_specialInstructions = specialRequests (step5 fd),
      b_status = Pending,
      b_paymentStatus = PaymentPending\<rparr>"

text \<open>The pipe on the response: \<^verbatim>\<open>map\<close> throws unless the envelope has \<^verbatim>\<open>success\<close> and
  \<^verbatim>\<open>data\<close>; \<^verbatim>\<open>tap\<close> records the success; \<^verbatim>\<open>catchError\<close> records the failure and throws it
  again. The argument \<^verbatim>\<open>http\<close> gives \<^verbatim>\<open>Inl message\<close> when the request itself fails. The
  observable is taken as subscribed to, and no other call runs before the response.\<close>

definition submitBooking ::
  "ValidationService \<Rightarrow> (PartialBooking \<Rightarrow> string + 'r ApiResponse) \<Rightarrow> BookingState \<Rightarrow>
     (Error + 'r) \<times> BookingState \<times> Effect list" where
  "submitBooking vs http s =
     (let allErrors = vs_validateAllSteps vs (formData s)
      in if length allErrors > 0 then
           (Inl (Error ''Validation errors exist''),
            s\<lparr>validationErrors := allErrors\<rparr>,
            [Emit (ValidationFailed ''Please correct all validation errors'')])
         else
           (let s1 = s\<lparr>isSubmitting := True, submissionError := None\<rparr>;
                bookingData = createBookingFromFormData (formData s) (pricing s);
                sent = [Emit SubmissionStarted, HttpPost apiBaseUrl bookingData];
                outcome =
                  (case http bookingData of
                     Inl msg \<Rightarrow> Inl msg
                   | Inr response \<Rightarrow>
                       (case api_data response of
                          Some d \<Rightarrow>
                            if api_success response then Inr d
                            else Inl (case api_error response of
                                        None \<Rightarrow> ''Failed to create booking''
                                      | Some e \<Rightarrow> if ae_message e \<noteq> [] then ae_message e
                                                  else ''Failed to create booking'')
                        | None \<Rightarrow>
                            Inl (case api_error response of
                                   None \<Rightarrow> ''Failed to create booking''
                                 | Some e \<Rightarrow> if ae_message e \<noteq> [] then ae_message e
                                             else ''Failed to create booking'')))
            in case outcome of
                 Inr d \<Rightarrow>
                   (Inr d, s1\<lparr>isSubmitting := False\<rparr>, sent @ [Emit SubmissionCompleted])
               | Inl msg \<Rightarrow>
                   (Inl (Error msg),
                    s1\<lparr>isSubmitting := False,
                       submissionError := Some (if msg \<noteq> [] then msg else ''Failed to submit booking'')\<rparr>,
                    sent @ [Emit (SubmissionFailed msg)])))"

subsubsection \<open>Validation of the current step, reset\<close>

definition validateCurrentStep ::
  "ValidationService \<Rightarrow> BookingState \<Rightarrow> BookingValidationError list \<times> BookingState" where
  "validateCurrentStep vs s =
     (let errors = vs_validateStep vs (currentStep s) (formData s)
      in (errors,
          s\<lparr>validationErrors :=
               filter (\<lambda>e. err_step e \<noteq> currentStep s) (validationErrors s) @ errors\<rparr>))"

definition resetBooking :: "BookingState \<Rightarrow> BookingState \<times> Effect list" where
  "resetBooking s = (createInitialState, [Emit (StepChanged 1)])"

subsection \<open>Concrete data for the scenarios\<close>

text \<open>The first service of \<^verbatim>\<open>getMockServices()\<close> and the second level of
  \<^verbatim>\<open>getMockServiceLevels()\<close>, a medium vehicle, a slot with a surge price of 25, and a
  contact that satisfies every rule of step 4.\<close>

definition scenario_clock :: Clock where
  "scenario_clock = \<lparr>currentYear = 2026, today = 1793491200000\<rparr>"

definition scenario_service :: ServiceType where
  "scenario_service =
     \<lparr>st_id = ''1'', st_name = ''Exterior Wash'',
      st_description = ''Complete exterior cleaning and detailing'',
      basePrice = Finite 75, duration = Finite 60, category = Exterior, st_available = True\<rparr>"

definition scenario_level :: ServiceLevel where
  "scenario_level =
     \<lparr>sl_id = ''premium'', sl_name = ''Premium'',
      sl_description = ''Enhanced service with premium products'',
      priceMultiplier = round_double (13 / 10),
      features = [''Premium wash'', ''Deep vacuum'', ''Tire shine'', ''Interior protection'']\<rparr>"

definition scenario_vehicle :: Vehicle where
  "scenario_vehicle =
     \<lparr>v_id = Some ''v1'', v_make = ''Honda'', v_model = ''Civic'', year = Finite 2020, color = ''Red'',
      licensePlate = ''ABC 123'', vehicleType = Sedan, sizeCategory = Medium,
      condition = None, v_notes = None\<rparr>"

definition scenario_slot :: TimeSlot where
  "scenario_slot =
     \<lparr>ts_id = ''2026-11-03-9'', startTime = 1793523600000, endTime = 1793527200000,
      ts_available = True, price = Some (Finite 25)\<rparr>"

definition scenario_contact :: ContactInfo where
  "scenario_contact =
     \<lparr>firstName = ''Ann'', lastName = ''Lee'', email = ''ann@example.com'',
      phone = ''555-123-4567'', preferredContact = ByEmail, specialInstructions = None\<rparr>"

text \<open>The initial form with service, level, slot and contact filled in; the vehicle is still
  missing and the location is the initial one (mobile, with an empty address).\<close>

definition scenario_form :: BookingFormData where
  "scenario_form =
     \<lparr>step1 = \<lparr>selectedService = Some scenario_service, selectedLevel = Some scenario_level,
               preSelectedService = None\<rparr>,
      step2 = \<lparr>selectedVehicle = None, isNewVehicle = False, vehicles = []\<rparr>,
      step3 = \<lparr>selectedDate = Some 1793491200000, selectedTimeSlot = Some scenario_slot,
               availableDays = []\<rparr>,
      step4 = \<lparr>location = location (step4 (formData createInitialState)),
               contactInfo = scenario_contact\<rparr>,
      step5 = \<lparr>termsAccepted = True, marketingOptIn = False, specialRequests = Some []\<rparr>\<rparr>"

definition scenario_state :: BookingState where
  "scenario_state = createInitialState\<lparr>formData := scenario_form\<rparr>"

text \<open>The same form with the vehicle selected.\<close>

definition priced_state :: BookingState where
  "priced_state =
     scenario_state\<lparr>formData := scenario_form\<lparr>step2 :=
       \<lparr>selectedVehicle = Some scenario_vehicle, isNewVehicle = False, vehicles = []\<rparr>\<rparr>\<rparr>"

text \<open>The scenario with the first level of \<^verbatim>\<open>getMockServiceLevels()\<close> instead, the medium
  vehicle selected and no time slot.\<close>

definition basic_level :: ServiceLevel where
  "basic_level =
     \<lparr>sl_id = ''basic'', sl_name = ''Basic'', sl_description = ''Standard service level'',
      priceMultiplier = Finite 1,
      features = [''Basic wash'', ''Vacuum'', ''Tire shine'']\<rparr>"

definition basic_state :: BookingState where
  "basic_state =
     createInitialState\<lparr>formData := (formData createInitialState)
       \<lparr>step1 := \<lparr>selectedService = Some scenario_service, selectedLevel = Some basic_level,
                  preSelectedService = None\<rparr>,
        step2 := \<lparr>selectedVehicle = Some scenario_vehicle, isNewVehicle = False, vehicles = []\<rparr>\<rparr>\<rparr>"

text \<open>The same form, but for service at the shop, with no shop chosen yet.\<close>

definition shop_form :: BookingFormData where
  "shop_form =
     scenario_form\<lparr>step4 :=
       \<lparr>location = \<lparr>loc_type = Shop, address = None, shopLocation = None\<rparr>,
        contactInfo = scenario_contact\<rparr>\<rparr>"

text \<open>A larger vehicle, to replace the one of the scenario.\<close>

definition other_vehicle :: Vehicle where
  "other_vehicle =
     \<lparr>v_id = Some ''v2'', v_make = ''Ford'', v_model = ''Transit'', year = Finite 2022, color = ''White'',
      licensePlate = ''XYZ-789'', vehicleType = Van, sizeCategory = XLarge,
      condition = None, v_notes = None\<rparr>"

text \<open>The three fields of the mobile address in the schema of step 4.\<close>

definition address_fields :: "string set" where
  "address_fields =
     {''location.address.street'', ''location.address.city'', ''location.address.zipCode''}"

section \<open>Properties\<close>

subsection \<open>Numbers\<close>

lemma pow2_powi: "pow2 e = 2 powi e"
  by (simp add: pow2_def power_int_def inverse_eq_divide power_one_over)

lemma pow2_pos: "0 < pow2 e"
  by (simp add: pow2_powi)

lemma pow2_add: "pow2 (a + b) = pow2 a * pow2 b"
  by (simp add: pow2_powi power_int_add)

lemma pow2_mono: "a \<le> b \<Longrightarrow> pow2 a \<le> pow2 b"
  by (simp add: pow2_powi power_int_increasing)

text \<open>\<open>round_half_even\<close> is within one half of its argument, and \<open>ilog2\<close> is the binary
  exponent.\<close>

lemma round_half_even_near: "\<bar>of_int (round_half_even x) - x\<bar> \<le> 1 / 2"
proof -
  define f where "f = \<lfloor>x\<rfloor>"
  have f1: "of_int f \<le> x" and f2: "x < of_int f + 1"
    unfolding f_def by linarith+
  have r: "round_half_even x =
      (if x - of_int f < 1 / 2 then f
       else if 1 / 2 < x - of_int f then f + 1
       else if even f then f else f + 1)"
    by (simp add: round_half_even_def Let_def f_def)
  show ?thesis
    unfolding r using f1 f2 by (auto simp: abs_if split: if_splits)
qed

lemma ilog2_bounds:
  assumes "0 < a"
  shows "pow2 (ilog2 a) \<le> a \<and> a < pow2 (ilog2 a + 1)"
proof -
  obtain p q where pq: "quotient_of a = (p, q)" by (cases "quotient_of a")
  then have q: "0 < q" and a: "a = of_int p / of_int q"
    using quotient_of_denom_pos quotient_of_div by blast+
  with assms have p: "0 < p"
    by (simp add: zero_less_divide_iff)
  let ?bp = "bitlen p" and ?bq = "bitlen q"
  from bitlen_bounds [OF p] have p1: "(2::int) ^ nat (?bp - 1) \<le> p" and p2: "p < 2 ^ nat ?bp" by auto
  from bitlen_bounds [OF q] have q1: "(2::int) ^ nat (?bq - 1) \<le> q" and q2: "q < 2 ^ nat ?bq" by auto
  have bp: "1 \<le> ?bp" using p by (auto simp: bitlen_alt_def)
  have bq: "1 \<le> ?bq" using q by (auto simp: bitlen_alt_def)
  have P1: "pow2 (?bp - 1) \<le> of_int p"
  proof -
    have "(of_int ((2::int) ^ nat (?bp - 1)) :: rat) \<le> of_int p" using p1 by (simp only: of_int_le_iff)
    then show ?thesis using bp by (simp add: pow2_def)
  qed
  have P2: "of_int p < pow2 ?bp"
  proof -
    have "(of_int p :: rat) < of_int ((2::int) ^ nat ?bp)" using p2 by (simp only: of_int_less_iff)
    then show ?thesis using bp by (simp add: pow2_def)
  qed
  have Q1: "pow2 (?bq - 1) \<le> of_int q"
  proof -
    have "(of_int ((2::int) ^ nat (?bq - 1)) :: rat) \<le> of_int q" using q1 by (simp only: of_int_le_iff)
    then show ?thesis using bq by (simp add: pow2_def)
  qed
  have Q2: "of_int q < pow2 ?bq"
  proof -
    have "(of_int q :: rat) < of_int ((2::int) ^ nat ?bq)" using q2 by (simp only: of_int_less_iff)
    then show ?thesis using bq by (simp add: pow2_def)
  qed
  have qpos: "(0::rat) < of_int q" using q by simp
  have lower: "pow2 (?bp - ?bq - 1) \<le> a"
  proof -
    have "pow2 (?bp - ?bq - 1) * of_int q \<le> pow2 (?bp - ?bq - 1) * pow2 ?bq"
      using Q2 pow2_pos [of "?bp - ?bq - 1"] by (simp add: mult_left_mono)
    also have "\<dots> = pow2 (?bp - 1)" by (simp add: pow2_add [symmetric])
    also have "\<dots> \<le> of_int p" by (rule P1)
    finally show ?thesis using qpos by (simp add: a pos_le_divide_eq)
  qed
  have upper: "a < pow2 (?bp - ?bq + 1)"
  proof -
    have "of_int p < pow2 ?bp" by (rule P2)
    also have "\<dots> = pow2 (?bp - ?bq + 1) * pow2 (?bq - 1)" by (simp add: pow2_add [symmetric])
    also have "\<dots> \<le> pow2 (?bp - ?bq + 1) * of_int q"
      using Q1 pow2_pos [of "?bp - ?bq + 1"] by (simp add: mult_left_mono)
    finally show ?thesis using qpos by (simp add: a pos_divide_less_eq)
  qed
  show ?thesis
    using lower upper by (auto simp: ilog2_def pq Let_def not_le)
qed


lemma ilog2_unique:
  assumes "0 < a" and "pow2 e \<le> a" and "a < pow2 (e + 1)"
  shows "ilog2 a = e"
proof (rule ccontr)
  assume ne: "ilog2 a \<noteq> e"
  from ilog2_bounds [OF assms(1)]
  have lo: "pow2 (ilog2 a) \<le> a" and hi: "a < pow2 (ilog2 a + 1)" by auto
  show False
  proof (cases "ilog2 a < e")
    case True
    then have "pow2 (ilog2 a + 1) \<le> pow2 e" by (intro pow2_mono) simp
    with hi assms(2) show False by simp
  next
    case False
    with ne have "e + 1 \<le> ilog2 a" by simp
    then have "pow2 (e + 1) \<le> pow2 (ilog2 a)" by (rule pow2_mono)
    with lo assms(3) show False by simp
  qed
qed

text \<open>Both are determined by their bounds.\<close>

lemma round_half_even_unique:
  assumes "\<bar>of_int m - x\<bar> \<le> 1 / 2" and "\<bar>of_int m - x\<bar> = 1 / 2 \<longrightarrow> even m"
  shows "round_half_even x = m"
proof -
  define f where "f = \<lfloor>x\<rfloor>"
  have f1: "of_int f \<le> x" and f2: "x < of_int f + 1"
    unfolding f_def by linarith+
  have r: "round_half_even x =
      (if x - of_int f < 1 / 2 then f
       else if 1 / 2 < x - of_int f then f + 1
       else if even f then f else f + 1)"
    by (simp add: round_half_even_def Let_def f_def)
  from assms(1) have m1: "x - 1 / 2 \<le> of_int m" and m2: "of_int m \<le> x + 1 / 2"
    by linarith+
  have "m = f \<or> m = f + 1"
  proof -
    have "(of_int f :: rat) - 1 < of_int m" using m1 f1 f2 by linarith
    then have "(of_int (f - 1) :: rat) < of_int m" by simp
    then have a: "f - 1 < m" by (simp only: of_int_less_iff)
    have "(of_int m :: rat) < of_int f + 2" using m2 f1 f2 by linarith
    then have "(of_int m :: rat) < of_int (f + 2)" by simp
    then have b: "m < f + 2" by (simp only: of_int_less_iff)
    from a b show ?thesis by linarith
  qed
  then show ?thesis
  proof
    assume mf: "m = f"
    show ?thesis
    proof (cases "x - of_int f < 1 / 2")
      case True
      then show ?thesis unfolding r using mf by simp
    next
      case False
      from m1 mf have "x - of_int f \<le> 1 / 2" by simp
      with False have half: "x - of_int f = 1 / 2" by linarith
      then have "\<bar>of_int m - x\<bar> = 1 / 2" using mf by simp
      with assms(2) mf have "even f" by simp
      with half mf show ?thesis unfolding r by simp
    qed
  next
    assume mf: "m = f + 1"
    show ?thesis
    proof (cases "1 / 2 < x - of_int f")
      case True
      then show ?thesis unfolding r using mf by simp
    next
      case False
      from m2 mf have "1 / 2 \<le> x - of_int f" by simp
      with False have half: "x - of_int f = 1 / 2" by linarith
      then have "\<bar>of_int m - x\<bar> = 1 / 2" using mf by simp
      with assms(2) mf have "odd f" by simp
      with half mf show ?thesis unfolding r by simp
    qed
  qed
qed

text \<open>How a double is computed by hand: give the exponent and the significand.\<close>

lemma round_double_eqI:
  assumes "0 < x" and "pow2 e \<le> x" and "x < pow2 (e + 1)" and "- 1022 \<le> e"
      and "\<bar>of_int m - x / pow2 (e - 52)\<bar> \<le> 1 / 2"
      and "\<bar>of_int m - x / pow2 (e - 52)\<bar> = 1 / 2 \<longrightarrow> even m"
      and "of_int m * pow2 (e - 52) < pow2 1024"
      and "y = of_int m * pow2 (e - 52)"
  shows "round_double x = Finite y"
proof -
  have a: "\<bar>x\<bar> = x" using assms(1) by simp
  have e: "ilog2 x = e" by (rule ilog2_unique [OF assms(1-3)])
  have mx: "max e (- 1022) = e" using assms(4) by simp
  have m: "round_half_even (x / pow2 (e - 52)) = m"
    by (rule round_half_even_unique [OF assms(5) assms(6)])
  show ?thesis
    using assms(1) assms(7) assms(8)
    by (simp add: round_double_def Let_def a e mx m)
qed


text \<open>A finite result of \<open>round_double\<close> is a multiple of the spacing of the doubles at its
  argument and lies within half a spacing of it.\<close>

lemma round_double_nearest:
  assumes "round_double x = Finite y"
  shows "\<exists>m::int. y = of_int m * pow2 (max (ilog2 \<bar>x\<bar>) (- 1022) - 52) \<and>
           \<bar>y - x\<bar> \<le> pow2 (max (ilog2 \<bar>x\<bar>) (- 1022) - 52) / 2"
proof (cases "x = 0")
  case True
  with assms have "y = 0" by (simp add: round_double_def)
  with True show ?thesis
    using pow2_pos [of "max (ilog2 \<bar>x\<bar>) (- 1022) - 52"] by (intro exI [of _ 0]) simp
next
  case False
  define q where "q = pow2 (max (ilog2 \<bar>x\<bar>) (- 1022) - 52)"
  define m where "m = round_half_even (\<bar>x\<bar> / q)"
  have qpos: "0 < q" unfolding q_def by (rule pow2_pos)
  have y: "y = (if 0 < x then of_int m * q else - (of_int m * q))"
    using assms False by (simp add: round_double_def Let_def q_def m_def split: if_splits)
  have h: "\<bar>of_int m - \<bar>x\<bar> / q\<bar> \<le> 1 / 2"
    unfolding m_def by (rule round_half_even_near)
  have eq: "of_int m * q - \<bar>x\<bar> = (of_int m - \<bar>x\<bar> / q) * q"
    using qpos by (simp add: field_simps)
  have "\<bar>of_int m * q - \<bar>x\<bar>\<bar> = \<bar>of_int m - \<bar>x\<bar> / q\<bar> * q"
    unfolding eq abs_mult using qpos by simp
  also have "\<dots> \<le> 1 / 2 * q"
    using h qpos by (intro mult_right_mono) simp_all
  finally have near: "\<bar>of_int m * q - \<bar>x\<bar>\<bar> \<le> q / 2" by simp
  show ?thesis
  proof (cases "0 < x")
    case True
    with y near show ?thesis unfolding q_def [symmetric] by (intro exI [of _ m]) simp
  next
    case neg: False
    with False have "x < 0" by simp
    with y near neg show ?thesis
      unfolding q_def [symmetric] by (intro exI [of _ "- m"]) (simp add: abs_if split: if_splits)
  qed
qed

text \<open>The doubles of the literals that occur below (\<^verbatim>\<open>0.1\<close>, \<^verbatim>\<open>1.2\<close>, \<^verbatim>\<open>0.08\<close> and so on), a tie
  that goes to the even neighbour, and \<^verbatim>\<open>0.1 + 0.2\<close>, which is not the literal \<^verbatim>\<open>0.3\<close>.\<close>

lemma double_0_1: "round_double (1 / 10) = Finite (3602879701896397 / 36028797018963968)"
  by (rule round_double_eqI [where e = "- 4" and m = 7205759403792794]) (simp_all add: pow2_def)

lemma double_0_2: "round_double (2 / 10) = Finite (3602879701896397 / 18014398509481984)"
  by (rule round_double_eqI [where e = "- 3" and m = 7205759403792794]) (simp_all add: pow2_def)

lemma double_0_3: "round_double (3 / 10) = Finite (5404319552844595 / 18014398509481984)"
  by (rule round_double_eqI [where e = "- 2" and m = 5404319552844595]) (simp_all add: pow2_def)

lemma double_1_2: "round_double (12 / 10) = Finite (5404319552844595 / 4503599627370496)"
  by (rule round_double_eqI [where e = 0 and m = 5404319552844595]) (simp_all add: pow2_def)

lemma double_1_3: "round_double (13 / 10) = Finite (5854679515581645 / 4503599627370496)"
  by (rule round_double_eqI [where e = 0 and m = 5854679515581645]) (simp_all add: pow2_def)

lemma double_1_5: "round_double (15 / 10) = Finite (3 / 2)"
  by (rule round_double_eqI [where e = 0 and m = 6755399441055744]) (simp_all add: pow2_def)

lemma double_0_08: "round_double (8 / 100) = Finite (5764607523034235 / 72057594037927936)"
  by (rule round_double_eqI [where e = "- 4" and m = 5764607523034235]) (simp_all add: pow2_def)

lemma double_13_36: "round_double (1336 / 100) = Finite (940126422213591 / 70368744177664)"
  by (rule round_double_eqI [where e = 3 and m = 7521011377708728]) (simp_all add: pow2_def)

lemma double_180_36: "round_double (18036 / 100) = Finite (1586463337485435 / 8796093022208)"
  by (rule round_double_eqI [where e = 7 and m = 6345853349941740]) (simp_all add: pow2_def)

lemma double_124_2: "round_double (1242 / 10) = Finite (8739798026865869 / 70368744177664)"
  by (rule round_double_eqI [where e = 6 and m = 8739798026865869]) (simp_all add: pow2_def)

lemma double_9_2: "round_double ((90 + (0 + 25)) * (8 / 100)) = Finite (2589569785738035 / 281474976710656)"
  by (rule round_double_eqI [where e = 3 and m = 5179139571476070]) (simp_all add: pow2_def)

lemma double_tie: "round_double (9007199254740993) = Finite 9007199254740992"
  by (rule round_double_eqI [where e = 53 and m = 4503599627370496]) (simp_all add: pow2_def)

lemma double_0_1_plus_0_2: "js_add (round_double (1 / 10)) (round_double (2 / 10)) = Finite (1351079888211149 / 4503599627370496)"
  unfolding double_0_1 double_0_2 js_add.simps
  by (rule round_double_eqI [where e = "- 2" and m = 5404319552844596]) (simp_all add: pow2_def)


subsection \<open>Pricing\<close>

text \<open>With the three selections present, \<^verbatim>\<open>calculatePricing\<close> returns the breakdown below and
  stores it.\<close>

lemma calculatePricing_Some:
  assumes "selectedService (step1 (formData s)) = Some service"
      and "selectedLevel (step1 (formData s)) = Some level"
      and "selectedVehicle (step2 (formData s)) = Some vehicle"
  shows "calculatePricing s =
     (let subtotal = js_mul (js_mul (basePrice service) (priceMultiplier level))
                       (VEHICLE_SIZE_MULTIPLIERS (sizeCategory vehicle));
          totalSurcharges = js_add (slotPrice (selectedTimeSlot (step3 (formData s))))
                              (LOCATION_SURCHARGES (loc_type (location (step4 (formData s)))));
          taxes' = js_mul (js_add subtotal totalSurcharges) (round_double (8 / 100));
          p = \<lparr>servicePrice = subtotal,
               levelMultiplier = priceMultiplier level,
               vehicleSizeMultiplier = VEHICLE_SIZE_MULTIPLIERS (sizeCategory vehicle),
               timeSlotSurcharge = slotPrice (selectedTimeSlot (step3 (formData s))),
               locationSurcharge = LOCATION_SURCHARGES (loc_type (location (step4 (formData s)))),
               taxes = taxes',
               discounts = Finite 0,
               total = js_add (js_add subtotal totalSurcharges) taxes'\<rparr>
      in (Inr p, s\<lparr>pricing := Some p\<rparr>))"
  using assms by (simp add: calculatePricing_def Let_def)

text \<open>The arithmetic of the scenario of claim C1, and of the same booking at the basic level
  without a time slot, one operation at a time.\<close>

lemma scenario_mul_level: "js_mul (Finite 75) (round_double (13 / 10)) = Finite (195 / 2)"
  unfolding double_1_3 js_mul.simps
  by (rule round_double_eqI [where e = 6 and m = 6860952557322240]) (simp_all add: pow2_def)

lemma scenario_mul_size: "js_mul (Finite (195 / 2)) (round_double (12 / 10)) = Finite 117"
  unfolding double_1_2 js_mul.simps
  by (rule round_double_eqI [where e = 6 and m = 8233143068786688]) (simp_all add: pow2_def)

lemma scenario_surcharges: "js_add (Finite 25) (Finite 25) = Finite 50"
  unfolding js_add.simps
  by (rule round_double_eqI [where e = 5 and m = 7036874417766400]) (simp_all add: pow2_def)

lemma scenario_taxable: "js_add (Finite 117) (Finite 50) = Finite 167"
  unfolding js_add.simps
  by (rule round_double_eqI [where e = 7 and m = 5875790138834944]) (simp_all add: pow2_def)

lemma scenario_taxes: "js_mul (Finite 167) (round_double (8 / 100)) = Finite (940126422213591 / 70368744177664)"
  unfolding double_0_08 js_mul.simps
  by (rule round_double_eqI [where e = 3 and m = 7521011377708728]) (simp_all add: pow2_def)

lemma scenario_total: "js_add (Finite 167) (Finite (940126422213591 / 70368744177664)) = Finite (1586463337485435 / 8796093022208)"
  unfolding js_add.simps
  by (rule round_double_eqI [where e = 7 and m = 6345853349941740]) (simp_all add: pow2_def)

lemma basic_mul_level: "js_mul (Finite 75) (Finite 1) = Finite 75"
  unfolding js_mul.simps
  by (rule round_double_eqI [where e = 6 and m = 5277655813324800]) (simp_all add: pow2_def)

lemma basic_mul_size: "js_mul (Finite 75) (round_double (12 / 10)) = Finite 90"
  unfolding double_1_2 js_mul.simps
  by (rule round_double_eqI [where e = 6 and m = 6333186975989760]) (simp_all add: pow2_def)

lemma basic_surcharges: "js_add (Finite 0) (Finite 25) = Finite 25"
  unfolding js_add.simps
  by (rule round_double_eqI [where e = 4 and m = 7036874417766400]) (simp_all add: pow2_def)

lemma basic_taxable: "js_add (Finite 90) (Finite 25) = Finite 115"
  unfolding js_add.simps
  by (rule round_double_eqI [where e = 6 and m = 8092405580431360]) (simp_all add: pow2_def)

lemma basic_taxes: "js_mul (Finite 115) (round_double (8 / 100)) = Finite (5179139571476071 / 562949953421312)"
  unfolding double_0_08 js_mul.simps
  by (rule round_double_eqI [where e = 3 and m = 5179139571476071]) (simp_all add: pow2_def)

lemma basic_total: "js_add (Finite 115) (Finite (5179139571476071 / 562949953421312)) = Finite (8739798026865869 / 70368744177664)"
  unfolding js_add.simps
  by (rule round_double_eqI [where e = 6 and m = 8739798026865869]) (simp_all add: pow2_def)

lemma scenario_arithmetic:
  "js_mul (js_mul (Finite 75) (round_double (13 / 10))) (round_double (12 / 10)) = Finite 117"
  "js_add (Finite 25) (Finite 25) = Finite 50"
  "js_mul (js_add (Finite 117) (Finite 50)) (round_double (8 / 100)) = round_double (1336 / 100)"
  "js_add (js_add (Finite 117) (Finite 50)) (round_double (1336 / 100)) =
     round_double (18036 / 100)"
  unfolding scenario_mul_level scenario_mul_size scenario_surcharges scenario_taxable
    scenario_taxes double_13_36 scenario_total double_180_36
  by (rule refl)+

lemma basic_arithmetic:
  "js_mul (js_mul (Finite 75) (Finite 1)) (round_double (12 / 10)) = Finite 90"
  "js_add (Finite 0) (Finite 25) = Finite 25"
  "js_mul (js_add (Finite 90) (Finite 25)) (round_double (8 / 100)) =
     Finite (5179139571476071 / 562949953421312)"
  "js_add (js_add (Finite 90) (Finite 25)) (Finite (5179139571476071 / 562949953421312)) =
     round_double (1242 / 10)"
  unfolding basic_mul_level basic_mul_size basic_surcharges basic_taxable basic_taxes
    basic_total double_124_2
  by (rule refl)+

text \<open>Claim C1 is not met as stated. For the exterior wash (base price 75) at the basic level
  (multiplier 1.0) with a medium vehicle, no time slot and a mobile location, the subtotal is
  90 and the surcharges are 25, but the taxes that \<^verbatim>\<open>calculatePricing\<close> returns are
  9.200000000000001: neither \<open>(90 + 25) \<times> 0.08 = 9.2\<close> nor the double nearest to it.\<close>

theorem C1_taxes_differ_from_exact_product:
  "fst (calculatePricing basic_state) =
     Inr \<lparr>servicePrice = Finite 90,
          levelMultiplier = Finite 1,
          vehicleSizeMultiplier = round_double (12 / 10),
          timeSlotSurcharge = Finite 0,
          locationSurcharge = Finite 25,
          taxes = Finite (5179139571476071 / 562949953421312),
          discounts = Finite 0,
          total = round_double (1242 / 10)\<rparr> \<and>
   Finite (5179139571476071 / 562949953421312) \<noteq> Finite ((90 + (0 + 25)) * (8 / 100)) \<and>
   Finite (5179139571476071 / 562949953421312) \<noteq> round_double ((90 + (0 + 25)) * (8 / 100))"
proof -
  have sel: "selectedService (step1 (formData basic_state)) = Some scenario_service"
    "selectedLevel (step1 (formData basic_state)) = Some basic_level"
    "selectedVehicle (step2 (formData basic_state)) = Some scenario_vehicle"
    by (simp_all add: basic_state_def)
  have inputs: "basePrice scenario_service = Finite 75" "priceMultiplier basic_level = Finite 1"
    "VEHICLE_SIZE_MULTIPLIERS (sizeCategory scenario_vehicle) = round_double (12 / 10)"
    "slotPrice (selectedTimeSlot (step3 (formData basic_state))) = Finite 0"
    "LOCATION_SURCHARGES (loc_type (location (step4 (formData basic_state)))) = Finite 25"
    by (simp_all add: scenario_service_def basic_level_def scenario_vehicle_def basic_state_def
        createInitialState_def slotPrice_def)
  have run: "fst (calculatePricing basic_state) =
     Inr \<lparr>servicePrice = Finite 90,
          levelMultiplier = Finite 1,
          vehicleSizeMultiplier = round_double (12 / 10),
          timeSlotSurcharge = Finite 0,
          locationSurcharge = Finite 25,
          taxes = Finite (5179139571476071 / 562949953421312),
          discounts = Finite 0,
          total = round_double (1242 / 10)\<rparr>"
    unfolding calculatePricing_Some [OF sel] Let_def inputs basic_arithmetic by simp
  have exact: "(5179139571476071 / 562949953421312 :: rat) \<noteq> (90 + (0 + 25)) * (8 / 100)"
    by simp
  have nearest: "Finite (5179139571476071 / 562949953421312) \<noteq>
      round_double ((90 + (0 + 25)) * (8 / 100))"
    unfolding double_9_2 by simp
  from run exact nearest show ?thesis by simp
qed

text \<open>Claim C1, amended. When service, level and vehicle are selected, \<^verbatim>\<open>calculatePricing\<close>
  produces a breakdown in which every product and sum is the double operation of JavaScript,
  rounded to the nearest double, in the order of the code: \<^verbatim>\<open>servicePrice\<close> is base price
  times level multiplier, times the size factor of the vehicle (small 1.0, medium 1.2, large
  1.5, xlarge 2.0, as doubles); the time slot surcharge is the surge price of the selected slot
  and 0 without a slot or without a surge price; the location surcharge is 25 for mobile and 0
  for shop; the taxes are subtotal plus surcharges, times the double 0.08; the discounts are
  0; the total is subtotal plus surcharges, plus taxes. For base price 75, multiplier 1.3, a
  medium vehicle, a slot surcharge of 25 and a mobile location the results are the doubles
  117, 50, 13.36 and 180.36.\<close>

theorem C1_calculatePricing_breakdown:
  assumes "selectedService (step1 (formData s)) = Some service"
      and "selectedLevel (step1 (formData s)) = Some level"
      and "selectedVehicle (step2 (formData s)) = Some vehicle"
  shows "\<exists>p. calculatePricing s = (Inr p, s\<lparr>pricing := Some p\<rparr>) \<and>
     servicePrice p =
       js_mul (js_mul (basePrice service) (priceMultiplier level))
         (VEHICLE_SIZE_MULTIPLIERS (sizeCategory vehicle)) \<and>
     VEHICLE_SIZE_MULTIPLIERS (sizeCategory vehicle) =
       (case sizeCategory vehicle of
          Small \<Rightarrow> Finite 1
        | Medium \<Rightarrow> round_double (12 / 10)
        | Large \<Rightarrow> round_double (15 / 10)
        | XLarge \<Rightarrow> Finite 2) \<and>
     levelMultiplier p = priceMultiplier level \<and>
     vehicleSizeMultiplier p = VEHICLE_SIZE_MULTIPLIERS (sizeCategory vehicle) \<and>
     timeSlotSurcharge p =
       (case selectedTimeSlot (step3 (formData s)) of
          None \<Rightarrow> Finite 0
        | Some t \<Rightarrow> (case price t of None \<Rightarrow> Finite 0 | Some x \<Rightarrow> if x = NaN then Finite 0 else x)) \<and>
     locationSurcharge p =
       (case loc_type (location (step4 (formData s))) of Mobile \<Rightarrow> Finite 25 | Shop \<Rightarrow> Finite 0) \<and>
     taxes p =
       js_mul (js_add (servicePrice p) (js_add (timeSlotSurcharge p) (locationSurcharge p)))
         (round_double (8 / 100)) \<and>
     discounts p = Finite 0 \<and>
     total p =
       js_add (js_add (servicePrice p) (js_add (timeSlotSurcharge p) (locationSurcharge p)))
         (taxes p) \<and>
     (basePrice service = Finite 75 \<and> priceMultiplier level = round_double (13 / 10) \<and>
      sizeCategory vehicle = Medium \<and> timeSlotSurcharge p = Finite 25 \<and>
      loc_type (location (step4 (formData s))) = Mobile \<longrightarrow>
        servicePrice p = Finite 117 \<and>
        js_add (timeSlotSurcharge p) (locationSurcharge p) = Finite 50 \<and>
        taxes p = round_double (1336 / 100) \<and>
        total p = round_double (18036 / 100))"
proof -
  have size: "VEHICLE_SIZE_MULTIPLIERS (sizeCategory vehicle) =
       (case sizeCategory vehicle of
          Small \<Rightarrow> Finite 1
        | Medium \<Rightarrow> round_double (12 / 10)
        | Large \<Rightarrow> round_double (15 / 10)
        | XLarge \<Rightarrow> Finite 2)"
    by (cases "sizeCategory vehicle") simp_all
  have slot: "slotPrice (selectedTimeSlot (step3 (formData s))) =
       (case selectedTimeSlot (step3 (formData s)) of
          None \<Rightarrow> Finite 0
        | Some t \<Rightarrow> (case price t of None \<Rightarrow> Finite 0 | Some x \<Rightarrow> if x = NaN then Finite 0 else x))"
    by (auto simp: slotPrice_def split: option.splits)
  have loc: "LOCATION_SURCHARGES (loc_type (location (step4 (formData s)))) =
       (case loc_type (location (step4 (formData s))) of Mobile \<Rightarrow> Finite 25 | Shop \<Rightarrow> Finite 0)"
    by (cases "loc_type (location (step4 (formData s)))") simp_all
  let ?sub = "js_mul (js_mul (basePrice service) (priceMultiplier level))
                (VEHICLE_SIZE_MULTIPLIERS (sizeCategory vehicle))"
  let ?ts = "slotPrice (selectedTimeSlot (step3 (formData s)))"
  let ?ls = "LOCATION_SURCHARGES (loc_type (location (step4 (formData s))))"
  let ?tax = "js_mul (js_add ?sub (js_add ?ts ?ls)) (round_double (8 / 100))"
  let ?p = "\<lparr>servicePrice = ?sub,
             levelMultiplier = priceMultiplier level,
             vehicleSizeMultiplier = VEHICLE_SIZE_MULTIPLIERS (sizeCategory vehicle),
             timeSlotSurcharge = ?ts,
             locationSurcharge = ?ls,
             taxes = ?tax,
             discounts = Finite 0,
             total = js_add (js_add ?sub (js_add ?ts ?ls)) ?tax\<rparr>"
  have run: "calculatePricing s = (Inr ?p, s\<lparr>pricing := Some ?p\<rparr>)"
    by (simp add: calculatePricing_Some [OF assms] Let_def)
  have scenario: "servicePrice ?p = Finite 117 \<and>
        js_add (timeSlotSurcharge ?p) (locationSurcharge ?p) = Finite 50 \<and>
        taxes ?p = round_double (1336 / 100) \<and> total ?p = round_double (18036 / 100)"
    if h: "basePrice service = Finite 75" "priceMultiplier level = round_double (13 / 10)"
      "sizeCategory vehicle = Medium" "timeSlotSurcharge ?p = Finite 25"
      "loc_type (location (step4 (formData s))) = Mobile"
  proof -
    have ts: "?ts = Finite 25" using h(4) by simp
    have sub: "?sub = Finite 117"
      unfolding h(1) h(2) h(3) VEHICLE_SIZE_MULTIPLIERS.simps by (rule scenario_arithmetic(1))
    have ls: "?ls = Finite 25" unfolding h(5) by simp
    show ?thesis
      unfolding PricingBreakdown.simps sub ts ls scenario_arithmetic by simp
  qed
  show ?thesis
  proof (intro exI [of _ ?p] conjI)
    show "calculatePricing s = (Inr ?p, s\<lparr>pricing := Some ?p\<rparr>)" by (rule run)
    show "VEHICLE_SIZE_MULTIPLIERS (sizeCategory vehicle) =
       (case sizeCategory vehicle of
          Small \<Rightarrow> Finite 1
        | Medium \<Rightarrow> round_double (12 / 10)
        | Large \<Rightarrow> round_double (15 / 10)
        | XLarge \<Rightarrow> Finite 2)"
      by (rule size)
    show "timeSlotSurcharge ?p =
       (case selectedTimeSlot (step3 (formData s)) of
          None \<Rightarrow> Finite 0
        | Some t \<Rightarrow> (case price t of None \<Rightarrow> Finite 0 | Some x \<Rightarrow> if x = NaN then Finite 0 else x))"
      using slot by simp
    show "locationSurcharge ?p =
       (case loc_type (location (step4 (formData s))) of Mobile \<Rightarrow> Finite 25 | Shop \<Rightarrow> Finite 0)"
      using loc by simp
    show "basePrice service = Finite 75 \<and> priceMultiplier level = round_double (13 / 10) \<and>
      sizeCategory vehicle = Medium \<and> timeSlotSurcharge ?p = Finite 25 \<and>
      loc_type (location (step4 (formData s))) = Mobile \<longrightarrow>
        servicePrice ?p = Finite 117 \<and>
        js_add (timeSlotSurcharge ?p) (locationSurcharge ?p) = Finite 50 \<and>
        taxes ?p = round_double (1336 / 100) \<and>
        total ?p = round_double (18036 / 100)"
      using scenario by blast
  qed simp_all
qed

text \<open>The scenario of claim C1, computed on a concrete state.\<close>

theorem C1_calculatePricing_breakdown_witness:
  "selectedService (step1 (formData priced_state)) = Some scenario_service \<and>
   selectedLevel (step1 (formData priced_state)) = Some scenario_level \<and>
   selectedVehicle (step2 (formData priced_state)) = Some scenario_vehicle \<and>
   (\<exists>p. calculatePricing priced_state = (Inr p, priced_state\<lparr>pricing := Some p\<rparr>) \<and>
        servicePrice p = Finite 117 \<and> timeSlotSurcharge p = Finite 25 \<and>
        locationSurcharge p = Finite 25 \<and> taxes p = round_double (1336 / 100) \<and>
        discounts p = Finite 0 \<and> total p = round_double (18036 / 100))"
proof -
  have a: "selectedService (step1 (formData priced_state)) = Some scenario_service"
    by (simp add: priced_state_def scenario_state_def scenario_form_def)
  have b: "selectedLevel (step1 (formData priced_state)) = Some scenario_level"
    by (simp add: priced_state_def scenario_state_def scenario_form_def)
  have c: "selectedVehicle (step2 (formData priced_state)) = Some scenario_vehicle"
    by (simp add: priced_state_def scenario_state_def scenario_form_def)
  have d: "selectedTimeSlot (step3 (formData priced_state)) = Some scenario_slot"
    by (simp add: priced_state_def scenario_state_def scenario_form_def)
  have e: "loc_type (location (step4 (formData priced_state))) = Mobile"
    by (simp add: priced_state_def scenario_state_def scenario_form_def createInitialState_def)
  from C1_calculatePricing_breakdown [OF a b c]
  obtain p where p: "calculatePricing priced_state = (Inr p, priced_state\<lparr>pricing := Some p\<rparr>)"
     "timeSlotSurcharge p =
       (case selectedTimeSlot (step3 (formData priced_state)) of
          None \<Rightarrow> Finite 0
        | Some t \<Rightarrow> (case price t of None \<Rightarrow> Finite 0 | Some x \<Rightarrow> if x = NaN then Finite 0 else x))"
     "locationSurcharge p =
       (case loc_type (location (step4 (formData priced_state))) of
          Mobile \<Rightarrow> Finite 25 | Shop \<Rightarrow> Finite 0)"
     "discounts p = Finite 0"
     "(basePrice scenario_service = Finite 75 \<and>
       priceMultiplier scenario_level = round_double (13 / 10) \<and>
       sizeCategory scenario_vehicle = Medium \<and> timeSlotSurcharge p = Finite 25 \<and>
       loc_type (location (step4 (formData priced_state))) = Mobile \<longrightarrow>
        servicePrice p = Finite 117 \<and>
        js_add (timeSlotSurcharge p) (locationSurcharge p) = Finite 50 \<and>
        taxes p = round_double (1336 / 100) \<and> total p = round_double (18036 / 100))"
    by blast
  have ts: "timeSlotSurcharge p = Finite 25" using p(2) by (simp add: d scenario_slot_def)
  have ls: "locationSurcharge p = Finite 25" using p(3) by (simp add: e)
  have "servicePrice p = Finite 117 \<and> taxes p = round_double (1336 / 100) \<and>
      total p = round_double (18036 / 100)"
    using p(5) ts e by (simp add: scenario_service_def scenario_level_def scenario_vehicle_def)
  with a b c p(1) p(4) ts ls show ?thesis by blast
qed

text \<open>Claim C5. When the service, the level or the vehicle is not selected,
  \<^verbatim>\<open>calculatePricing\<close> fails with an error, produces no breakdown, and returns the state as
  it was, stored pricing included.\<close>

theorem C5_calculatePricing_missing_selection:
  assumes "selectedService (step1 (formData s)) = None \<or>
           selectedLevel (step1 (formData s)) = None \<or>
           selectedVehicle (step2 (formData s)) = None"
  shows "calculatePricing s = (Inl (Error ''Required selections not complete''), s)"
  using assms by (auto simp: calculatePricing_def Let_def split: option.splits)

text \<open>The form of the scenario has no vehicle.\<close>

theorem C5_calculatePricing_missing_selection_witness:
  "selectedVehicle (step2 (formData scenario_state)) = None \<and>
   calculatePricing scenario_state = (Inl (Error ''Required selections not complete''), scenario_state)"
proof -
  have h: "selectedVehicle (step2 (formData scenario_state)) = None"
    by (simp add: scenario_state_def scenario_form_def)
  then have "selectedService (step1 (formData scenario_state)) = None \<or>
           selectedLevel (step1 (formData scenario_state)) = None \<or>
           selectedVehicle (step2 (formData scenario_state)) = None"
    by blast
  from C5_calculatePricing_missing_selection [OF this] h show ?thesis by blast
qed

subsection \<open>Navigation\<close>

text \<open>Claim C9. For a step below 1 or above 5, \<^verbatim>\<open>goToStep\<close> fails and returns the state
  unchanged (current step, form data, validation errors and pricing), with no event
  emitted, whatever validation service is injected.\<close>

theorem C9_goToStep_out_of_range:
  assumes "step < 1 \<or> step > 5"
  shows "goToStep vs s step = (Inl (Error (''Invalid step: '' @ show_int step)), s, [])"
  using assms by (auto simp: goToStep_def MAX_BOOKING_STEPS_def)

text \<open>Steps 0 and 6 on the state of the scenario.\<close>

theorem C9_goToStep_out_of_range_witness:
  "goToStep (bookingValidationService scenario_clock) scenario_state 6 =
     (Inl (Error ''Invalid step: 6''), scenario_state, []) \<and>
   goToStep (bookingValidationService scenario_clock) scenario_state 0 =
     (Inl (Error ''Invalid step: 0''), scenario_state, [])"
proof -
  have six: "(6::int) < 1 \<or> (6::int) > 5" by simp
  have zero: "(0::int) < 1 \<or> (0::int) > 5" by simp
  have s6: "show_int 6 = ''6''" by code_simp
  have s0: "show_int 0 = ''0''" by code_simp
  show ?thesis
    using C9_goToStep_out_of_range [OF six, of "bookingValidationService scenario_clock" scenario_state]
      C9_goToStep_out_of_range [OF zero, of "bookingValidationService scenario_clock" scenario_state]
    by (simp add: s6 s0)
qed

text \<open>Claim C10. With service and level selected, \<^verbatim>\<open>updateStepData(2, patch)\<close> with a patch that
  sets \<^verbatim>\<open>selectedVehicle\<close> first writes the merged step and drops the validation errors of
  step 2, then runs \<^verbatim>\<open>calculatePricing\<close> on that very state: the stored pricing carries the
  size factor of the new vehicle.\<close>

theorem C10_updateStepData_reprices_new_vehicle:
  assumes "selectedService (step1 (formData s)) = Some service"
      and "selectedLevel (step1 (formData s)) = Some level"
      and "p_selectedVehicle patch = Some (Some vehicle)"
  shows "\<exists>s1 pr.
           s1 = s\<lparr>formData := (formData s)\<lparr>step2 := merge_Step2 (step2 (formData s)) patch\<rparr>,
                  validationErrors := filter (\<lambda>e. err_step e \<noteq> 2) (validationErrors s)\<rparr> \<and>
           selectedVehicle (step2 (formData s1)) = Some vehicle \<and>
           filter (\<lambda>e. err_step e = 2) (validationErrors s1) = [] \<and>
           calculatePricing s1 = (Inr pr, s1\<lparr>pricing := Some pr\<rparr>) \<and>
           updateStepData s 2 (Patch2 patch) =
             (s1\<lparr>pricing := Some pr\<rparr>, [Emit (DataUpdated 2 (Patch2 patch))]) \<and>
           vehicleSizeMultiplier pr = VEHICLE_SIZE_MULTIPLIERS (sizeCategory vehicle)"
proof -
  let ?s1 = "s\<lparr>formData := (formData s)\<lparr>step2 := merge_Step2 (step2 (formData s)) patch\<rparr>,
                  validationErrors := filter (\<lambda>e. err_step e \<noteq> 2) (validationErrors s)\<rparr>"
  have sv: "selectedService (step1 (formData ?s1)) = Some service"
    and lv: "selectedLevel (step1 (formData ?s1)) = Some level"
    and vh: "selectedVehicle (step2 (formData ?s1)) = Some vehicle"
    using assms by (simp_all add: merge_Step2_def override_def)
  from calculatePricing_Some [OF sv lv vh]
  obtain pr where pr: "calculatePricing ?s1 = (Inr pr, ?s1\<lparr>pricing := Some pr\<rparr>)"
    and mult: "vehicleSizeMultiplier pr = VEHICLE_SIZE_MULTIPLIERS (sizeCategory vehicle)"
    by (simp add: Let_def)
  have key: "getStepKey 2 = Some Step2"
    by (simp add: getStepKey_def)
  have upd: "updateStepData s 2 (Patch2 patch) =
             (?s1\<lparr>pricing := Some pr\<rparr>, [Emit (DataUpdated 2 (Patch2 patch))])"
    by (simp add: updateStepData_def key shouldRecalculatePricing_def Let_def pr)
  have cleared: "filter (\<lambda>e. err_step e = 2) (validationErrors ?s1) = []"
    by (simp add: filter_empty_conv)
  from vh cleared pr upd mult show ?thesis by blast
qed

text \<open>The medium vehicle of the scenario replaced by an extra large one: the factor stored in
  the pricing goes from 1.2 to 2.\<close>

theorem C10_updateStepData_reprices_new_vehicle_witness:
  "selectedService (step1 (formData priced_state)) = Some scenario_service \<and>
   selectedLevel (step1 (formData priced_state)) = Some scenario_level \<and>
   selectedVehicle (step2 (formData priced_state)) = Some scenario_vehicle \<and>
   VEHICLE_SIZE_MULTIPLIERS (sizeCategory scenario_vehicle) = round_double (12 / 10) \<and>
   (\<exists>pr. pricing (fst (updateStepData priced_state 2
             (Patch2 (no_patch2\<lparr>p_selectedVehicle := Some (Some other_vehicle)\<rparr>)))) = Some pr \<and>
         vehicleSizeMultiplier pr = Finite 2)"
proof -
  have a: "selectedService (step1 (formData priced_state)) = Some scenario_service"
    and b: "selectedLevel (step1 (formData priced_state)) = Some scenario_level"
    and c: "selectedVehicle (step2 (formData priced_state)) = Some scenario_vehicle"
    by (simp_all add: priced_state_def scenario_state_def scenario_form_def)
  have d: "p_selectedVehicle (no_patch2\<lparr>p_selectedVehicle := Some (Some other_vehicle)\<rparr>) =
      Some (Some other_vehicle)"
    by simp
  have e: "VEHICLE_SIZE_MULTIPLIERS (sizeCategory scenario_vehicle) = round_double (12 / 10)"
    by (simp add: scenario_vehicle_def)
  have f: "VEHICLE_SIZE_MULTIPLIERS (sizeCategory other_vehicle) = Finite 2"
    by (simp add: other_vehicle_def)
  from C10_updateStepData_reprices_new_vehicle [OF a b d]
  obtain s1 pr where
    "updateStepData priced_state 2
       (Patch2 (no_patch2\<lparr>p_selectedVehicle := Some (Some other_vehicle)\<rparr>)) =
     (s1\<lparr>pricing := Some pr\<rparr>,
      [Emit (DataUpdated 2 (Patch2 (no_patch2\<lparr>p_selectedVehicle := Some (Some other_vehicle)\<rparr>)))])"
    and "vehicleSizeMultiplier pr = VEHICLE_SIZE_MULTIPLIERS (sizeCategory other_vehicle)"
    by blast
  then have "pricing (fst (updateStepData priced_state 2
             (Patch2 (no_patch2\<lparr>p_selectedVehicle := Some (Some other_vehicle)\<rparr>)))) = Some pr \<and>
         vehicleSizeMultiplier pr = Finite 2"
    by (simp add: f)
  with a b c e show ?thesis by blast
qed

subsection \<open>Validation\<close>

lemma getStepKey_simps:
  "getStepKey 1 = Some Step1" "getStepKey 2 = Some Step2" "getStepKey 3 = Some Step3"
  "getStepKey 4 = Some Step4" "getStepKey 5 = Some Step5"
  by (simp_all add: getStepKey_def)

text \<open>How one rule answers on an empty value, and on a value that is not empty.\<close>

lemma required_on_empty:
  "isEmpty val \<Longrightarrow> applyValidationRule fieldName val rule_required fd step =
     Some \<lparr>err_step = step, err_field = fieldName,
           err_message = humanizeFieldName fieldName @ '' is required'', err_code = ''REQUIRED''\<rparr>"
  by (simp add: applyValidationRule_def rule_required_def no_rule_def)

lemma required_on_nonempty:
  "\<not> isEmpty val \<Longrightarrow> applyValidationRule fieldName val rule_required fd step = None"
  by (simp add: applyValidationRule_def rule_required_def no_rule_def)

lemma custom_on_empty:
  "isEmpty val \<Longrightarrow> applyValidationRule fieldName val (rule_custom f) fd step = None"
  by (simp add: applyValidationRule_def rule_custom_def no_rule_def)

text \<open>Every error carries the field and the step it was raised for.\<close>

lemma applyValidationRule_field:
  "applyValidationRule fieldName val rule fd step = Some e \<Longrightarrow>
     err_field e = fieldName \<and> err_step e = step"
  unfolding applyValidationRule_def
  by (auto split: if_splits option.splits)

lemma validateField_field:
  "e \<in> set (validateField fieldName val rules fd step) \<Longrightarrow>
     err_field e = fieldName \<and> err_step e = step"
  by (induction rules) (auto dest: applyValidationRule_field split: option.splits)

lemma filter_validateField_other:
  assumes "fieldName \<notin> S"
  shows "filter (\<lambda>e. err_field e \<in> S) (validateField fieldName val rules fd step) = []"
  using assms by (auto simp: filter_empty_conv dest: validateField_field)

lemma validateAllSteps_set:
  "set (validateAllSteps clock fd) = (\<Union>step \<in> {1, 2, 3, 4, 5}. set (validateStep clock step fd))"
  by (simp add: validateAllSteps_def)

subsubsection \<open>Step 1\<close>

lemma selectedService_value:
  "getNestedValue (js_Step1 d) ''selectedService'' = js_nullable js_ServiceType (selectedService d)"
  by (simp add: getNestedValue_def js_Step1_def)

lemma selectedLevel_value:
  "getNestedValue (js_Step1 d) ''selectedLevel'' = js_nullable js_ServiceLevel (selectedLevel d)"
  by (simp add: getNestedValue_def js_Step1_def)

lemma validateStep_1_selected:
  assumes "selectedService (step1 fd) = Some service" and "selectedLevel (step1 fd) = Some level"
  shows "validateStep clock 1 fd = []"
proof -
  have "\<not> isEmpty (getNestedValue (js_Step1 (step1 fd)) ''selectedService'')"
    by (simp add: selectedService_value assms js_nullable_def js_ServiceType_def)
  moreover have "\<not> isEmpty (getNestedValue (js_Step1 (step1 fd)) ''selectedLevel'')"
    by (simp add: selectedLevel_value assms js_nullable_def js_ServiceLevel_def)
  ultimately show ?thesis
    by (simp add: validateStep_def getStepKey_simps required_on_nonempty)
qed

subsubsection \<open>Step 2\<close>

lemma selectedVehicle_value:
  "getNestedValue (js_Step2 d) ''selectedVehicle'' = js_nullable js_Vehicle (selectedVehicle d)"
  by (simp add: getNestedValue_def js_Step2_def)

lemma humanize_selectedVehicle: "humanizeFieldName ''selectedVehicle'' = ''Selected Vehicle''"
  by code_simp

lemma validateStep_2_missing:
  assumes "selectedVehicle (step2 fd) = None"
  shows "\<lparr>err_step = 2, err_field = ''selectedVehicle'',
          err_message = ''Selected Vehicle is required'', err_code = ''REQUIRED''\<rparr>
         \<in> set (validateStep clock 2 fd)"
proof -
  have "isEmpty (getNestedValue (js_Step2 (step2 fd)) ''selectedVehicle'')"
    by (simp add: selectedVehicle_value assms js_nullable_def)
  then have "validateField ''selectedVehicle''
       (getNestedValue (js_Step2 (step2 fd)) ''selectedVehicle'') [rule_required] fd 2 =
     [\<lparr>err_step = 2, err_field = ''selectedVehicle'',
          err_message = ''Selected Vehicle is required'', err_code = ''REQUIRED''\<rparr>]"
    by (simp add: required_on_empty humanize_selectedVehicle)
  then show ?thesis
    by (simp add: validateStep_def getStepKey_simps)
qed

subsubsection \<open>Step 3\<close>

lemma selectedDate_value:
  "getNestedValue (js_Step3 d) ''selectedDate'' = js_nullable JDate (selectedDate d)"
  by (simp add: getNestedValue_def js_Step3_def)

lemma isEmpty_nullable_date: "isEmpty (js_nullable JDate x)"
  by (cases x) (simp_all add: js_nullable_def)

lemma humanize_selectedDate: "humanizeFieldName ''selectedDate'' = ''Selected Date''"
  by code_simp

lemma validateStep_3:
  "validateStep clock 3 fd =
     \<lparr>err_step = 3, err_field = ''selectedDate'', err_message = ''Selected Date is required'',
      err_code = ''REQUIRED''\<rparr> #
     validateField ''selectedTimeSlot''
       (getNestedValue (js_Step3 (step3 fd)) ''selectedTimeSlot'') [rule_required] fd 3"
  by (simp add: validateStep_def getStepKey_simps selectedDate_value isEmpty_nullable_date
      required_on_empty custom_on_empty humanize_selectedDate)

text \<open>Hence the validation service of the repository never accepts a whole form.\<close>

lemma validateAllSteps_nonempty: "validateAllSteps clock fd \<noteq> []"
proof -
  have "\<lparr>err_step = 3, err_field = ''selectedDate'', err_message = ''Selected Date is required'',
      err_code = ''REQUIRED''\<rparr> \<in> set (validateStep clock 3 fd)"
    by (simp add: validateStep_3)
  then have "\<lparr>err_step = 3, err_field = ''selectedDate'', err_message = ''Selected Date is required'',
      err_code = ''REQUIRED''\<rparr> \<in> set (validateAllSteps clock fd)"
    by (simp add: validateAllSteps_set)
  then show ?thesis by auto
qed

text \<open>Claim C3. For every form, \<^verbatim>\<open>validateStep(3, formData)\<close> contains the error with code
  REQUIRED for the field \<^verbatim>\<open>selectedDate\<close>, whether the date is \<^verbatim>\<open>null\<close> or a Date, since
  \<^verbatim>\<open>isEmpty\<close> holds of both; so \<^verbatim>\<open>isStepValid(3, formData)\<close> and
  \<^verbatim>\<open>canProceedToNextStep(3, formData)\<close> are false.\<close>

theorem C3_selectedDate_always_required:
  "isEmpty JNull \<and> isEmpty (JDate d) \<and>
   \<lparr>err_step = 3, err_field = ''selectedDate'', err_message = ''Selected Date is required'',
    err_code = ''REQUIRED''\<rparr> \<in> set (validateStep clock 3 fd) \<and>
   \<not> isStepValid clock 3 fd \<and>
   \<not> canProceedToNextStep clock 3 fd"
  by (simp add: validateStep_3 isStepValid_def canProceedToNextStep_def)

text \<open>The form of the scenario has a date, and step 3 is still rejected.\<close>

theorem C3_selectedDate_always_required_witness:
  "selectedDate (step3 scenario_form) = Some 1793491200000 \<and>
   \<lparr>err_step = 3, err_field = ''selectedDate'', err_message = ''Selected Date is required'',
    err_code = ''REQUIRED''\<rparr> \<in> set (validateStep scenario_clock 3 scenario_form) \<and>
   \<not> isStepValid scenario_clock 3 scenario_form \<and>
   \<not> canProceedToNextStep scenario_clock 3 scenario_form"
proof -
  have "selectedDate (step3 scenario_form) = Some 1793491200000"
    by (simp add: scenario_form_def)
  with C3_selectedDate_always_required [of 1793491200000 scenario_clock scenario_form]
  show ?thesis by blast
qed

subsubsection \<open>Step 4\<close>

lemma street_value:
  "getNestedValue (js_Step4 d) ''location.address.street'' =
     (case address (location d) of None \<Rightarrow> JUndefined | Some a \<Rightarrow> JStr (street a))"
  by (simp add: getNestedValue_def js_Step4_def js_Location_def js_Address_def js_optional_def
      split: option.splits)

lemma city_value:
  "getNestedValue (js_Step4 d) ''location.address.city'' =
     (case address (location d) of None \<Rightarrow> JUndefined | Some a \<Rightarrow> JStr (city a))"
  by (simp add: getNestedValue_def js_Step4_def js_Location_def js_Address_def js_optional_def
      split: option.splits)

lemma zipCode_value:
  "getNestedValue (js_Step4 d) ''location.address.zipCode'' =
     (case address (location d) of None \<Rightarrow> JUndefined | Some a \<Rightarrow> JStr (zipCode a))"
  by (simp add: getNestedValue_def js_Step4_def js_Location_def js_Address_def js_optional_def
      split: option.splits)

text \<open>The schema of step 4, field by field.\<close>

lemma validateStep_4_fields:
  "validateStep clock 4 fd =
     validateField ''contactInfo.firstName''
       (getNestedValue (js_Step4 (step4 fd)) ''contactInfo.firstName'')
       [rule_required, rule_minLength 2, rule_maxLength 50, rule_pattern name_pattern] fd 4 @
     validateField ''contactInfo.lastName''
       (getNestedValue (js_Step4 (step4 fd)) ''contactInfo.lastName'')
       [rule_required, rule_minLength 2, rule_maxLength 50, rule_pattern name_pattern] fd 4 @
     validateField ''contactInfo.email''
       (getNestedValue (js_Step4 (step4 fd)) ''contactInfo.email'')
       [rule_required, rule_pattern email_pattern] fd 4 @
     validateField ''contactInfo.phone''
       (getNestedValue (js_Step4 (step4 fd)) ''contactInfo.phone'')
       [rule_required, rule_pattern phone_pattern] fd 4 @
     validateField ''contactInfo.preferredContact''
       (getNestedValue (js_Step4 (step4 fd)) ''contactInfo.preferredContact'') [rule_required] fd 4 @
     validateField ''location.type''
       (getNestedValue (js_Step4 (step4 fd)) ''location.type'') [rule_required] fd 4 @
     validateField ''location.address.street''
       (getNestedValue (js_Step4 (step4 fd)) ''location.address.street'')
       [rule_custom validateStreet] fd 4 @
     validateField ''location.address.city''
       (getNestedValue (js_Step4 (step4 fd)) ''location.address.city'')
       [rule_custom validateCity] fd 4 @
     validateField ''location.address.zipCode''
       (getNestedValue (js_Step4 (step4 fd)) ''location.address.zipCode'')
       [rule_custom validateZipCode] fd 4"
  unfolding validateStep_def getStepKey_simps option.case createValidationSchema.simps
    list.map concat.simps prod.case stepData.simps append_Nil2 ..

lemma contact_fields_are_not_address_fields:
  "''contactInfo.firstName'' \<notin> address_fields"
  "''contactInfo.lastName'' \<notin> address_fields"
  "''contactInfo.email'' \<notin> address_fields"
  "''contactInfo.phone'' \<notin> address_fields"
  "''contactInfo.preferredContact'' \<notin> address_fields"
  "''location.type'' \<notin> address_fields"
  by (simp_all add: address_fields_def)

text \<open>The rules for street and city are \<^verbatim>\<open>custom\<close> rules without \<^verbatim>\<open>required\<close>. On an empty
  string \<^verbatim>\<open>applyValidationRule\<close> returns before it reaches the custom validator, and on any
  other string the validator finds the value truthy: on a string these two rules never
  report anything.\<close>

lemma street_rule_silent:
  "applyValidationRule fieldName (JStr s) (rule_custom validateStreet) fd step = None"
  by (auto simp: applyValidationRule_def rule_custom_def no_rule_def validateStreet_def trim_def)

lemma city_rule_silent:
  "applyValidationRule fieldName (JStr s) (rule_custom validateCity) fd step = None"
  by (auto simp: applyValidationRule_def rule_custom_def no_rule_def validateCity_def trim_def)

text \<open>For service at the shop the three address rules report nothing, whatever the address:
  this half of claim C4 holds.\<close>

lemma shop_address_fields_no_error:
  assumes "loc_type (location (step4 fd)) = Shop"
  shows "filter (\<lambda>e. err_field e \<in> address_fields)
           (validateStep clock 4 fd) = []"
proof -
  have none: "applyValidationRule fieldName val (rule_custom validateStreet) fd 4 = None"
    "applyValidationRule fieldName val (rule_custom validateCity) fd 4 = None"
    "applyValidationRule fieldName val (rule_custom validateZipCode) fd 4 = None" for fieldName val
    by (simp_all add: applyValidationRule_def rule_custom_def no_rule_def validateStreet_def
        validateCity_def validateZipCode_def assms)
  show ?thesis
    unfolding validateStep_4_fields filter_append
    by (simp add: filter_validateField_other contact_fields_are_not_address_fields
        del: validateField.simps) (simp add: none)
qed

text \<open>Claim C4, which the code does not meet. The claim asks for three required-for-mobile
  errors when the location is mobile and street, city and ZIP code are empty strings. The code
  reports no error at all for these three fields: the empty value makes
  \<^verbatim>\<open>applyValidationRule\<close> return before the custom validator runs.\<close>

theorem C4_mobile_empty_address_no_error:
  assumes "loc_type (location (step4 fd)) = Mobile"
      and "address (location (step4 fd)) = Some a"
      and "street a = []" and "city a = []" and "zipCode a = []"
  shows "filter (\<lambda>e. err_field e \<in> address_fields)
           (validateStep clock 4 fd) = []"
proof -
  have street: "validateField ''location.address.street''
       (getNestedValue (js_Step4 (step4 fd)) ''location.address.street'')
       [rule_custom validateStreet] fd 4 = []"
    by (simp add: street_value assms custom_on_empty trim_def)
  have city: "validateField ''location.address.city''
       (getNestedValue (js_Step4 (step4 fd)) ''location.address.city'')
       [rule_custom validateCity] fd 4 = []"
    by (simp add: city_value assms custom_on_empty trim_def)
  have zip: "validateField ''location.address.zipCode''
       (getNestedValue (js_Step4 (step4 fd)) ''location.address.zipCode'')
       [rule_custom validateZipCode] fd 4 = []"
    by (simp add: zipCode_value assms custom_on_empty trim_def)
  show ?thesis
    unfolding validateStep_4_fields street city zip filter_append
    by (simp add: filter_validateField_other contact_fields_are_not_address_fields
        del: validateField.simps)
qed

text \<open>The initial form is such a form: mobile, with an empty address.\<close>

theorem C4_mobile_empty_address_no_error_witness:
  "loc_type (location (step4 (formData createInitialState))) = Mobile \<and>
   address (location (step4 (formData createInitialState))) =
     Some \<lparr>street = [], city = [], state = [], zipCode = [], country = ''US'', coordinates = None\<rparr> \<and>
   filter (\<lambda>e. err_field e \<in> address_fields)
     (validateStep scenario_clock 4 (formData createInitialState)) = []"
proof -
  have a: "loc_type (location (step4 (formData createInitialState))) = Mobile"
    and b: "address (location (step4 (formData createInitialState))) =
      Some \<lparr>street = [], city = [], state = [], zipCode = [], country = ''US'', coordinates = None\<rparr>"
    by (simp_all add: createInitialState_def)
  from C4_mobile_empty_address_no_error [OF a b, of scenario_clock] a b
  show ?thesis by simp
qed

text \<open>The errors that step 4 does report on the initial form: the four empty contact fields.\<close>

lemma initial_step4_errors:
  "map err_field (validateStep clock 4 (formData createInitialState)) =
     [''contactInfo.firstName'', ''contactInfo.lastName'', ''contactInfo.email'',
      ''contactInfo.phone'']"
  by code_simp

subsubsection \<open>Validation and the permission to proceed\<close>

lemma shop_form_valid: "validateStep clock 4 shop_form = []"
  by code_simp

lemma shop_form_blocked: "\<not> canProceedToNextStep clock 4 shop_form"
  by (simp add: canProceedToNextStep_def isStepValid_def shop_form_valid isLocationComplete_def
      shop_form_def)

text \<open>Claim C8. Whenever \<^verbatim>\<open>validateStep(step, formData)\<close> is not empty,
  \<^verbatim>\<open>canProceedToNextStep(step, formData)\<close> is false; and there are a step and a form with no
  validation error for which it is false all the same.\<close>

theorem C8_canProceed_stricter_than_validation:
  "(validateStep clock step fd \<noteq> [] \<longrightarrow> \<not> canProceedToNextStep clock step fd) \<and>
   (\<exists>step' fd'. validateStep clock step' fd' = [] \<and> \<not> canProceedToNextStep clock step' fd')"
proof
  show "validateStep clock step fd \<noteq> [] \<longrightarrow> \<not> canProceedToNextStep clock step fd"
    by (simp add: canProceedToNextStep_def isStepValid_def)
  show "\<exists>step' fd'. validateStep clock step' fd' = [] \<and> \<not> canProceedToNextStep clock step' fd'"
    using shop_form_valid shop_form_blocked by blast
qed

text \<open>Step 2 of the scenario, whose vehicle is missing, for the first part; step 4 of the shop
  form for the second.\<close>

theorem C8_canProceed_stricter_than_validation_witness:
  "validateStep scenario_clock 2 scenario_form \<noteq> [] \<and>
   \<not> canProceedToNextStep scenario_clock 2 scenario_form \<and>
   validateStep scenario_clock 4 shop_form = [] \<and>
   \<not> canProceedToNextStep scenario_clock 4 shop_form"
proof -
  have "selectedVehicle (step2 scenario_form) = None"
    by (simp add: scenario_form_def)
  from validateStep_2_missing [OF this, of scenario_clock]
  have a: "validateStep scenario_clock 2 scenario_form \<noteq> []"
    by auto
  from C8_canProceed_stricter_than_validation [of scenario_clock 2 scenario_form] a
  have "\<not> canProceedToNextStep scenario_clock 2 scenario_form"
    by blast
  with a shop_form_valid shop_form_blocked show ?thesis by blast
qed

subsection \<open>Forward navigation\<close>

lemma goToStep_forward:
  assumes "fst (goToStep vs s step) = Inr b" and "currentStep s < step"
  shows "vs_canProceedToNextStep vs (currentStep s) (formData s) \<and>
         goToStep vs s step = (Inr True, s\<lparr>currentStep := step\<rparr>, [Emit (StepChanged step)])"
  using assms by (auto simp: goToStep_def Let_def split: if_splits)

lemma canProceed_valid:
  "canProceedToNextStep clock step fd \<Longrightarrow> validateStep clock step fd = []"
  by (auto simp: canProceedToNextStep_def isStepValid_def split: if_splits)

lemma scenario_step1_proceed: "canProceedToNextStep scenario_clock 1 scenario_form"
proof -
  have sel: "selectedService (step1 scenario_form) = Some scenario_service"
    "selectedLevel (step1 scenario_form) = Some scenario_level"
    by (simp_all add: scenario_form_def)
  from validateStep_1_selected [OF sel] sel show ?thesis
    by (simp add: canProceedToNextStep_def isStepValid_def)
qed

lemma scenario_goToStep:
  assumes "1 < step" and "step \<le> 5"
  shows "goToStep (bookingValidationService scenario_clock) scenario_state step =
     (Inr True, scenario_state\<lparr>currentStep := step\<rparr>, [Emit (StepChanged step)])"
proof -
  have "currentStep scenario_state = 1" and "formData scenario_state = scenario_form"
    by (simp_all add: scenario_state_def createInitialState_def)
  then show ?thesis
    using assms scenario_step1_proceed
    by (simp add: goToStep_def bookingValidationService_def MAX_BOOKING_STEPS_def)
qed

text \<open>Claim C2 is not met as stated. From step 1 with service and level selected,
  \<^verbatim>\<open>goToStep(3)\<close> succeeds although no vehicle is selected: the current step is above step
  2, which has validation errors and may not be left.\<close>

theorem C2_goToStep_skips_a_step:
  "goToStep (bookingValidationService scenario_clock) scenario_state 3 =
     (Inr True, scenario_state\<lparr>currentStep := 3\<rparr>, [Emit (StepChanged 3)]) \<and>
   currentStep (scenario_state\<lparr>currentStep := 3\<rparr>) > 2 \<and>
   validateStep scenario_clock 2 (formData (scenario_state\<lparr>currentStep := 3\<rparr>)) \<noteq> [] \<and>
   \<not> canProceedToNextStep scenario_clock 2 (formData (scenario_state\<lparr>currentStep := 3\<rparr>))"
proof -
  have none: "selectedVehicle (step2 (formData (scenario_state\<lparr>currentStep := 3\<rparr>))) = None"
    by (simp add: scenario_state_def scenario_form_def)
  have invalid: "validateStep scenario_clock 2 (formData (scenario_state\<lparr>currentStep := 3\<rparr>)) \<noteq> []"
    using validateStep_2_missing [OF none, of scenario_clock] by auto
  then have "\<not> canProceedToNextStep scenario_clock 2 (formData (scenario_state\<lparr>currentStep := 3\<rparr>))"
    by (simp add: canProceedToNextStep_def isStepValid_def)
  with invalid scenario_goToStep [of 3] show ?thesis by simp
qed

text \<open>Claim C2, amended. A forward \<^verbatim>\<open>goToStep(n)\<close>, with \<^verbatim>\<open>n\<close> above the current step, and
  \<^verbatim>\<open>nextStep()\<close> succeed only if the current step, the one that is left, has no validation
  error and passes \<^verbatim>\<open>canProceedToNextStep\<close> on the current form data; the call then sets the
  current step to \<^verbatim>\<open>n\<close> and changes nothing else. The steps between the current step and
  \<^verbatim>\<open>n\<close> are not examined.\<close>

theorem C2_forward_step_checks_current_step:
  "(fst (goToStep (bookingValidationService clock) s step) = Inr b \<and> currentStep s < step \<longrightarrow>
      validateStep clock (currentStep s) (formData s) = [] \<and>
      canProceedToNextStep clock (currentStep s) (formData s) \<and>
      goToStep (bookingValidationService clock) s step =
        (Inr True, s\<lparr>currentStep := step\<rparr>, [Emit (StepChanged step)])) \<and>
   (fst (nextStep (bookingValidationService clock) s) = Inr b \<longrightarrow>
      validateStep clock (currentStep s) (formData s) = [] \<and>
      canProceedToNextStep clock (currentStep s) (formData s) \<and>
      nextStep (bookingValidationService clock) s =
        (Inr True, s\<lparr>currentStep := currentStep s + 1\<rparr>, [Emit (StepChanged (currentStep s + 1))]))"
proof -
  have gen: "validateStep clock (currentStep s) (formData s) = [] \<and>
      canProceedToNextStep clock (currentStep s) (formData s) \<and>
      goToStep (bookingValidationService clock) s n =
        (Inr True, s\<lparr>currentStep := n\<rparr>, [Emit (StepChanged n)])"
    if ok: "fst (goToStep (bookingValidationService clock) s n) = Inr b" and fwd: "currentStep s < n"
    for n
  proof -
    from goToStep_forward [OF ok fwd]
    have can: "canProceedToNextStep clock (currentStep s) (formData s)"
      and run: "goToStep (bookingValidationService clock) s n =
           (Inr True, s\<lparr>currentStep := n\<rparr>, [Emit (StepChanged n)])"
      by (simp_all add: bookingValidationService_def)
    from canProceed_valid [OF can] can run show ?thesis by blast
  qed
  have next_is_goTo: "nextStep (bookingValidationService clock) s =
      goToStep (bookingValidationService clock) s (currentStep s + 1)"
    by (simp add: nextStep_def)
  have fwd: "currentStep s < currentStep s + 1"
    by simp
  show ?thesis
    unfolding next_is_goTo
    using gen [of step] gen [of "currentStep s + 1", OF _ fwd]
    by blast
qed

text \<open>From step 1 of the scenario to step 2, by either call.\<close>

theorem C2_forward_step_checks_current_step_witness:
  "fst (goToStep (bookingValidationService scenario_clock) scenario_state 2) = Inr True \<and>
   currentStep scenario_state < 2 \<and>
   fst (nextStep (bookingValidationService scenario_clock) scenario_state) = Inr True \<and>
   validateStep scenario_clock (currentStep scenario_state) (formData scenario_state) = [] \<and>
   canProceedToNextStep scenario_clock (currentStep scenario_state) (formData scenario_state) \<and>
   goToStep (bookingValidationService scenario_clock) scenario_state 2 =
     (Inr True, scenario_state\<lparr>currentStep := 2\<rparr>, [Emit (StepChanged 2)])"
proof -
  have a: "fst (goToStep (bookingValidationService scenario_clock) scenario_state 2) = Inr True"
    by (simp add: scenario_goToStep)
  have b: "currentStep scenario_state < 2"
    by (simp add: scenario_state_def createInitialState_def)
  have "currentStep scenario_state + 1 = 2"
    by (simp add: scenario_state_def createInitialState_def)
  then have c: "fst (nextStep (bookingValidationService scenario_clock) scenario_state) = Inr True"
    by (simp add: nextStep_def a)
  from C2_forward_step_checks_current_step [of scenario_clock scenario_state 2 True] a b c
  show ?thesis by blast
qed

subsection \<open>Submission\<close>

lemma submitBooking_invalid:
  assumes "vs_validateAllSteps vs (formData s) \<noteq> []"
  shows "submitBooking vs http s =
     (Inl (Error ''Validation errors exist''),
      s\<lparr>validationErrors := vs_validateAllSteps vs (formData s)\<rparr>,
      [Emit (ValidationFailed ''Please correct all validation errors'')])"
  using assms by (simp add: submitBooking_def Let_def)

text \<open>With the validation service of the repository every submission stops here, since that
  service never returns an empty list.\<close>

lemma submitBooking_always_invalid:
  "submitBooking (bookingValidationService clock) http s =
     (Inl (Error ''Validation errors exist''),
      s\<lparr>validationErrors := validateAllSteps clock (formData s)\<rparr>,
      [Emit (ValidationFailed ''Please correct all validation errors'')])"
proof -
  have "vs_validateAllSteps (bookingValidationService clock) (formData s) \<noteq> []"
    by (simp add: bookingValidationService_def validateAllSteps_nonempty)
  from submitBooking_invalid [OF this, of http] show ?thesis
    by (simp add: bookingValidationService_def)
qed

text \<open>Claim C6. If \<^verbatim>\<open>validateAllSteps\<close> returns a list that is not empty, \<^verbatim>\<open>submitBooking\<close>
  fails, stores exactly that list as the validation errors, emits one validation event and
  posts nothing. A form without a selected vehicle has an error of step 2 in that list, so
  its submission fails in this way.\<close>

theorem C6_submit_blocked_by_validation:
  "(vs_validateAllSteps vs (formData s) \<noteq> [] \<longrightarrow>
      submitBooking vs http s =
        (Inl (Error ''Validation errors exist''),
         s\<lparr>validationErrors := vs_validateAllSteps vs (formData s)\<rparr>,
         [Emit (ValidationFailed ''Please correct all validation errors'')])) \<and>
   (selectedVehicle (step2 (formData s)) = None \<longrightarrow>
      \<lparr>err_step = 2, err_field = ''selectedVehicle'',
       err_message = ''Selected Vehicle is required'', err_code = ''REQUIRED''\<rparr>
        \<in> set (validateAllSteps clock (formData s)) \<and>
      submitBooking (bookingValidationService clock) http s =
        (Inl (Error ''Validation errors exist''),
         s\<lparr>validationErrors := validateAllSteps clock (formData s)\<rparr>,
         [Emit (ValidationFailed ''Please correct all validation errors'')]))"
proof (intro conjI impI)
  assume "vs_validateAllSteps vs (formData s) \<noteq> []"
  then show "submitBooking vs http s =
        (Inl (Error ''Validation errors exist''),
         s\<lparr>validationErrors := vs_validateAllSteps vs (formData s)\<rparr>,
         [Emit (ValidationFailed ''Please correct all validation errors'')])"
    by (rule submitBooking_invalid)
next
  assume none: "selectedVehicle (step2 (formData s)) = None"
  from validateStep_2_missing [OF none, of clock]
  show mem: "\<lparr>err_step = 2, err_field = ''selectedVehicle'',
       err_message = ''Selected Vehicle is required'', err_code = ''REQUIRED''\<rparr>
        \<in> set (validateAllSteps clock (formData s))"
    by (simp add: validateAllSteps_set)
  have "vs_validateAllSteps (bookingValidationService clock) (formData s) \<noteq> []"
    using mem by (auto simp: bookingValidationService_def)
  from submitBooking_invalid [OF this, of http]
  show "submitBooking (bookingValidationService clock) http s =
        (Inl (Error ''Validation errors exist''),
         s\<lparr>validationErrors := validateAllSteps clock (formData s)\<rparr>,
         [Emit (ValidationFailed ''Please correct all validation errors'')])"
    by (simp add: bookingValidationService_def)
qed

text \<open>The scenario without a vehicle, against a server that would accept the booking.\<close>

theorem C6_submit_blocked_by_validation_witness:
  "selectedVehicle (step2 (formData scenario_state)) = None \<and>
   vs_validateAllSteps (bookingValidationService scenario_clock) (formData scenario_state) \<noteq> [] \<and>
   \<lparr>err_step = 2, err_field = ''selectedVehicle'',
    err_message = ''Selected Vehicle is required'', err_code = ''REQUIRED''\<rparr>
     \<in> set (validateAllSteps scenario_clock (formData scenario_state)) \<and>
   submitBooking (bookingValidationService scenario_clock)
       (\<lambda>b. Inr \<lparr>api_success = True, api_data = Some (), api_error = None\<rparr>) scenario_state =
     (Inl (Error ''Validation errors exist''),
      scenario_state\<lparr>validationErrors := validateAllSteps scenario_clock (formData scenario_state)\<rparr>,
      [Emit (ValidationFailed ''Please correct all validation errors'')])"
proof -
  have h: "selectedVehicle (step2 (formData scenario_state)) = None"
    by (simp add: scenario_state_def scenario_form_def)
  have n: "vs_validateAllSteps (bookingValidationService scenario_clock) (formData scenario_state) \<noteq> []"
    by (simp add: bookingValidationService_def validateAllSteps_nonempty)
  from C6_submit_blocked_by_validation [of "bookingValidationService scenario_clock" scenario_state
      "\<lambda>b. Inr \<lparr>api_success = True, api_data = Some (), api_error = None\<rparr>" scenario_clock] h n
  show ?thesis by blast
qed

end
